theory Spec2Isabelle
  imports Complex_Main "HOL-Library.Log_Nat"
begin

section \<open>JavaScript values, strings and numbers\<close>

text \<open>
  Strings are lists of code units (\<^typ>\<open>char\<close>, the code units 0 to 255); \<open>length\<close> is
  the JavaScript \<open>length\<close>. In that range \<open>trim\<close> removes the code units 9 to 13, 32 and
  160 from both ends, and \<open>toLowerCase\<close> maps \<open>A\<close> to \<open>Z\<close> and the capital letters from 192
  to 222 (but not 215, the multiplication sign) to the code unit 32 above. \<open>includes_str\<close>
  is \<open>String.prototype.includes\<close>.

  A finite number is the rational value of an IEEE-754 double; \<open>Math.round\<close> rounds to the
  nearest integer, a half upwards, and is exact on a double. The number-to-string
  conversion of a template literal is a parameter \<open>numberToString\<close> of the functions that
  use it.
\<close>

definition isWhiteSpace :: "char \<Rightarrow> bool" where
  "isWhiteSpace c = ((of_char c :: nat) \<in> {9, 10, 11, 12, 13, 32, 160})"

definition trim :: "string \<Rightarrow> string" where
  "trim s = rev (dropWhile isWhiteSpace (rev (dropWhile isWhiteSpace s)))"

definition toLowerCaseChar :: "char \<Rightarrow> char" where
  "toLowerCaseChar c =
     (let n = (of_char c :: nat)
      in if (65 \<le> n \<and> n \<le> 90) \<or> (192 \<le> n \<and> n \<le> 222 \<and> n \<noteq> 215)
         then char_of (n + 32) else c)"

definition toLowerCase :: "string \<Rightarrow> string" where
  "toLowerCase s = map toLowerCaseChar s"

fun startsWith :: "string \<Rightarrow> string \<Rightarrow> bool" where
  "startsWith s [] = True"
| "startsWith [] (p # ps) = False"
| "startsWith (c # cs) (p # ps) = (c = p \<and> startsWith cs ps)"

fun includes_str :: "string \<Rightarrow> string \<Rightarrow> bool" where
  "includes_str [] sub = (sub = [])"
| "includes_str (c # cs) sub = (startsWith (c # cs) sub \<or> includes_str cs sub)"

definition Math_round :: "rat \<Rightarrow> int" where
  "Math_round x = \<lfloor>x + 1 / 2\<rfloor>"

text \<open>
  The operator \<open>*\<close> on two finite numbers yields the exact product rounded to the nearest
  double, a tie going to the double with the even significand (\<open>Number::multiply\<close>). A
  double other than 0 is an integer multiple of its quantum \<open>2 ^ (max (e - 52) (- 1074))\<close>,
  where \<open>2 ^ e\<close> is the largest power of two that does not exceed its magnitude: 53
  significant bits for a normal number, and the fixed quantum \<open>2 ^ (- 1074)\<close> for a
  subnormal one. \<open>toDouble\<close> rounds a rational to the nearest such multiple; a result of
  magnitude \<open>2 ^ 1024\<close> or more is an infinity. The two zeros are not distinguished, and
  \<open>Math.round\<close> maps an infinity to itself.
\<close>

datatype 'a extended = Finite 'a | PosInfinity | NegInfinity

definition pow2 :: "int \<Rightarrow> rat" where
  "pow2 k = (if 0 \<le> k then 2 ^ nat k else 1 / 2 ^ nat (- k))"

definition binade :: "rat \<Rightarrow> int" where
  "binade x =
     (if 1 \<le> \<bar>x\<bar> then bitlen \<lfloor>\<bar>x\<bar>\<rfloor> - 1
      else let k = bitlen \<lfloor>1 / \<bar>x\<bar>\<rfloor> - 1
           in if \<bar>x\<bar> = pow2 (- k) then - k else - k - 1)"

definition roundHalfEven :: "rat \<Rightarrow> int" where
  "roundHalfEven x =
     (let f = \<lfloor>x\<rfloor>; r = x - of_int f
      in if r < 1 / 2 then f else if 1 / 2 < r then f + 1 else if even f then f else f + 1)"

definition toDouble :: "rat \<Rightarrow> rat extended" where
  "toDouble x =
     (if x = 0 then Finite 0
      else
        let q = pow2 (max (binade x - 52) (- 1074));
            y = of_int (roundHalfEven (x / q)) * q
        in if 2 ^ 1024 \<le> y then PosInfinity
           else if y \<le> - (2 ^ 1024) then NegInfinity
           else Finite y)"

definition isDouble :: "rat \<Rightarrow> bool" where
  "isDouble x = (toDouble x = Finite x)"

definition Number_multiply :: "rat \<Rightarrow> rat \<Rightarrow> rat extended" where
  "Number_multiply x y = toDouble (x * y)"

fun Math_round_ext :: "rat extended \<Rightarrow> int extended" where
  "Math_round_ext (Finite x) = Finite (Math_round x)"
| "Math_round_ext PosInfinity = PosInfinity"
| "Math_round_ext NegInfinity = NegInfinity"

text \<open>
  The values that a caller can pass for a dish name or for servings: the values of a parsed
  JSON body, \<open>undefined\<close> for a missing property, and the numbers that are not finite.
  \<open>JObject\<close> stands for every object and array; \<open>truthy\<close> is the conversion to a boolean
  that \<open>!\<close>, \<open>||\<close> and \<open>if\<close> apply.
\<close>

datatype jsval =
    JUndefined
  | JNull
  | JBool bool
  | JNum rat
  | JNaN
  | JPosInf
  | JNegInf
  | JStr string
  | JObject

datatype jstype = TUndefined | TObject | TBoolean | TNumber | TString

fun typeof :: "jsval \<Rightarrow> jstype" where
  "typeof JUndefined = TUndefined"
| "typeof JNull = TObject"
| "typeof (JBool b) = TBoolean"
| "typeof (JNum r) = TNumber"
| "typeof JNaN = TNumber"
| "typeof JPosInf = TNumber"
| "typeof JNegInf = TNumber"
| "typeof (JStr s) = TString"
| "typeof JObject = TObject"

fun truthy :: "jsval \<Rightarrow> bool" where
  "truthy JUndefined = False"
| "truthy JNull = False"
| "truthy (JBool b) = b"
| "truthy (JNum r) = (r \<noteq> 0)"
| "truthy JNaN = False"
| "truthy JPosInf = True"
| "truthy JNegInf = True"
| "truthy (JStr s) = (s \<noteq> [])"
| "truthy JObject = True"

text \<open>The comparisons \<open>v <= 0\<close> and \<open>v > 50\<close> on a value of type number.\<close>

fun num_le :: "jsval \<Rightarrow> rat \<Rightarrow> bool" where
  "num_le (JNum r) k = (r \<le> k)"
| "num_le JNegInf k = True"
| "num_le v k = False"

fun num_gt :: "jsval \<Rightarrow> rat \<Rightarrow> bool" where
  "num_gt (JNum r) k = (r > k)"
| "num_gt JPosInf k = True"
| "num_gt v k = False"

section \<open>Errors\<close>

text \<open>
  Every \<open>throw new Error(msg)\<close> of the sources is a value \<open>Error k msg\<close>; the kind \<open>k\<close>
  records which group of throw statements raised it: the four of \<open>_validateInput\<close>, the two
  not-found errors of \<open>getCalories\<close>, an error thrown by the provider's search, and the two
  of \<open>calculateCalories\<close>. \<open>_handleError\<close> replaces the message by the user message that
  \<open>errorMappings\<close> holds for it, if any, and keeps the original message. \<open>errorMappings\<close>
  lists the five own properties of the object literal; the lookup \<open>errorMappings[msg]\<close>
  of the source also finds the properties inherited from \<open>Object.prototype\<close>, so the user
  message of an error whose message is the name of such a property (\<open>constructor\<close>,
  \<open>toString\<close>, ...) is not the one computed here. No throw statement of the sources
  has such a message; only a provider error could carry one.
\<close>

datatype error_kind = ValidationError | NotFoundError | ProviderError | InvalidInput

datatype js_error = Error (kind: error_kind) (message: string)

datatype service_error =
  ServiceError (skind: error_kind) (smessage: string) (originalError: string) (service: string)

definition errorMappings :: "string \<rightharpoonup> string" where
  "errorMappings =
     [''Dish not found'' \<mapsto> ''Sorry, we could not find that dish in our database'',
      ''Invalid servings'' \<mapsto> ''Please enter a valid number of servings (greater than 0)'',
      ''USDA API rate limit exceeded'' \<mapsto>
         ''Service temporarily busy, please try again in a few minutes'',
      ''USDA API service unavailable'' \<mapsto> ''Food database service is temporarily unavailable'',
      ''Invalid USDA API key'' \<mapsto> ''Food database service configuration error'']"

definition handleError :: "js_error \<Rightarrow> service_error" where
  "handleError e =
     (let userMessage = (case errorMappings (message e) of
                           Some m \<Rightarrow> (if m = [] then message e else m)
                         | None \<Rightarrow> message e)
      in ServiceError (kind e) userMessage (message e) ''FoodService'')"

section \<open>FoodService: input validation and cache key\<close>

fun strOf :: "jsval \<Rightarrow> string" where
  "strOf (JStr s) = s"
| "strOf v = []"

fun numOf :: "jsval \<Rightarrow> rat" where
  "numOf (JNum r) = r"
| "numOf v = 0"

text \<open>
  \<open>_validateInput\<close> throws or returns nothing: \<open>Some e\<close> is the error thrown, \<open>None\<close> the
  normal return. \<open>strOf\<close> is only reached behind the \<open>typeof\<close> test, as in the source.
\<close>

definition validateInput :: "jsval \<Rightarrow> jsval \<Rightarrow> js_error option" where
  "validateInput dishName servings =
     (if \<not> truthy dishName \<or> typeof dishName \<noteq> TString \<or> length (trim (strOf dishName)) = 0
      then Some (Error ValidationError ''Dish name is required and must be a non-empty string'')
      else if \<not> truthy servings \<or> typeof servings \<noteq> TNumber \<or> num_le servings 0
      then Some (Error ValidationError ''Servings must be a positive number'')
      else if num_gt servings 50
      then Some (Error ValidationError ''Maximum 50 servings allowed'')
      else if length (strOf dishName) > 200
      then Some (Error ValidationError ''Dish name too long (maximum 200 characters)'')
      else None)"

definition generateCacheKey :: "(rat \<Rightarrow> string) \<Rightarrow> string \<Rightarrow> rat \<Rightarrow> string" where
  "generateCacheKey numberToString dishName servings =
     ''calories_'' @ trim (toLowerCase dishName) @ ''_'' @ numberToString servings"

section \<open>Food candidates and the USDA provider\<close>

text \<open>
  A candidate is an element of the list that the provider's search resolves to. Its
  description is a string, its calorie value \<open>null\<close> or an integer, its \<open>nutrients\<close> an
  object keyed by lower-cased nutrient name, or absent. A result is the object that
  \<open>calculateCalories\<close> builds, with the three properties that \<open>getCalories\<close> adds to it;
  the time stamp is the instant of the call.
\<close>

record nutrient =
  nutrient_value :: rat
  nutrient_unit :: "string option"

record candidate =
  fdcId :: nat
  description :: string
  dataType :: string
  calories :: "int option"
  nutrients :: "(string \<rightharpoonup> nutrient) option"
  ingredients :: "string list"
  servingSize :: "(rat \<times> string) option"
  brandOwner :: "string option"
  score :: "rat option"

record calorie_result =
  dish_name :: string
  servings :: rat
  calories_per_serving :: int
  total_calories :: "int extended"
  source :: string
  result_ingredients :: "string list"
  result_nutrients :: "string \<rightharpoonup> nutrient"
  searchResults :: "nat option"
  matchScore :: "rat option"
  timestamp :: "nat option"

record provider_info =
  name :: string
  version :: string
  info_description :: string
  website :: string
  rateLimit :: string

definition getProviderInfo :: provider_info where
  "getProviderInfo =
     \<lparr>name = ''USDA FoodData Central'', version = ''v1'',
      info_description = ''United States Department of Agriculture Food Data Central API'',
      website = ''https://fdc.nal.usda.gov/'', rateLimit = ''1000 requests per hour''\<rparr>"

text \<open>Truthiness of a nullable number: \<open>null\<close>, \<open>undefined\<close> and \<open>0\<close> are falsy.\<close>

fun truthyInt :: "int option \<Rightarrow> bool" where
  "truthyInt None = False"
| "truthyInt (Some n) = (n \<noteq> 0)"

fun truthyNum :: "rat option \<Rightarrow> bool" where
  "truthyNum None = False"
| "truthyNum (Some r) = (r \<noteq> 0)"

text \<open>
  \<open>calculateCalories(foodItem, servings)\<close> on a food item that is an object and a
  servings value that is a finite number; the metadata fields that \<open>getCalories\<close> adds
  later are still absent. The total is \<open>Math.round(caloriesPerServing * servings)\<close>, the
  rounded double product, which is an infinity when the product overflows.
\<close>

definition calculateCalories :: "candidate \<Rightarrow> rat \<Rightarrow> js_error + calorie_result" where
  "calculateCalories foodItem servings_arg =
     (if \<not> truthyInt (calories foodItem)
      then Inl (Error InvalidInput ''Invalid food item or missing calorie data'')
      else if servings_arg = 0 \<or> servings_arg \<le> 0
      then Inl (Error InvalidInput ''Servings must be a positive number'')
      else
        (case calories foodItem of
           None \<Rightarrow> Inl (Error InvalidInput ''Invalid food item or missing calorie data'')
         | Some caloriesPerServing \<Rightarrow>
             let totalCalories =
                   Math_round_ext (Number_multiply (of_int caloriesPerServing) servings_arg)
             in Inr \<lparr>dish_name = description foodItem,
                     servings = servings_arg,
                     calories_per_serving = caloriesPerServing,
                     total_calories = totalCalories,
                     source = name getProviderInfo,
                     result_ingredients = ingredients foodItem,
                     result_nutrients = (case nutrients foodItem of None \<Rightarrow> Map.empty | Some m \<Rightarrow> m),
                     searchResults = None,
                     matchScore = None,
                     timestamp = None\<rparr>))"

subsection \<open>Calorie extraction from the provider's food records\<close>

text \<open>
  An entry of \<open>foodNutrients\<close> as the API sends it: identifier, name and unit either flat
  in the entry (\<open>nutrientId\<close>, \<open>nutrientName\<close>, \<open>unitName\<close>) or nested under \<open>nutrient\<close>
  (\<open>id\<close>, \<open>name\<close>, \<open>unitName\<close>), and the quantity under \<open>value\<close> or \<open>amount\<close>. A missing
  property is \<open>None\<close>.
\<close>

record api_nutrient_ref =
  ref_id :: "int option"
  ref_name :: "string option"
  ref_unitName :: "string option"

record api_nutrient =
  nutrientId :: "int option"
  nutrientName :: "string option"
  nutrient_ref :: "api_nutrient_ref option"
  api_value :: "rat option"
  api_amount :: "rat option"
  unitName :: "string option"

record obj_nutrient =
  obj_value :: "rat option"
  obj_amount :: "rat option"

text \<open>
  The argument of \<open>_extractCalories\<close>: absent, an array of nutrient entries (the format of
  the API), or an object keyed by nutrient name.
\<close>

datatype nutrients_arg =
    NoNutrients
  | NutrientArray "api_nutrient list"
  | NutrientObject "string \<rightharpoonup> obj_nutrient"

definition isEnergyNutrient :: "api_nutrient \<Rightarrow> bool" where
  "isEnergyNutrient n =
     (nutrientId n = Some 208 \<or>
      (case nutrient_ref n of None \<Rightarrow> False | Some r \<Rightarrow> ref_id r = Some 208) \<or>
      (case nutrient_ref n of
         None \<Rightarrow> False
       | Some r \<Rightarrow> (case ref_name r of
                     None \<Rightarrow> False
                   | Some nm \<Rightarrow> nm \<noteq> [] \<and> includes_str (toLowerCase nm) ''energy'')))"

text \<open>The expression \<open>a || b || 0\<close> on two nullable numbers.\<close>

fun orZero :: "rat option \<Rightarrow> rat" where
  "orZero None = 0"
| "orZero (Some x) = x"

definition orElse0 :: "rat option \<Rightarrow> rat option \<Rightarrow> rat" where
  "orElse0 a b = (if truthyNum a then orZero a else orZero b)"

fun firstEnergyKey :: "(string \<rightharpoonup> obj_nutrient) \<Rightarrow> string list \<Rightarrow> rat option" where
  "firstEnergyKey m [] = None"
| "firstEnergyKey m (k # ks) =
     (case m k of
        Some e \<Rightarrow> if truthyNum (obj_value e) then obj_value e else firstEnergyKey m ks
      | None \<Rightarrow> firstEnergyKey m ks)"

definition extractCalories :: "nutrients_arg \<Rightarrow> int option" where
  "extractCalories nutrients_in =
     (case nutrients_in of
        NoNutrients \<Rightarrow> None
      | NutrientArray ns \<Rightarrow>
          (case find isEnergyNutrient ns of
             Some energyNutrient \<Rightarrow>
               Some (Math_round (orElse0 (api_value energyNutrient) (api_amount energyNutrient)))
           | None \<Rightarrow> None)
      | NutrientObject m \<Rightarrow>
          (case firstEnergyKey m [''energy'', ''Energy'', ''ENERGY''] of
             Some v \<Rightarrow> Some (Math_round v)
           | None \<Rightarrow>
               (case m ''energy'' of
                  Some e \<Rightarrow> Some (Math_round (orElse0 (obj_value e) (obj_amount e)))
                | None \<Rightarrow> None)))"

definition extractNutrientsStep ::
  "(string \<rightharpoonup> nutrient) \<Rightarrow> api_nutrient \<Rightarrow> (string \<rightharpoonup> nutrient)" where
  "extractNutrientsStep nutrientMap n =
     (let nutrientName_v = (case nutrient_ref n of Some r \<Rightarrow> ref_name r | None \<Rightarrow> nutrientName n);
          nutrientValue = orElse0 (api_value n) (api_amount n);
          nutrientUnit = (case nutrient_ref n of Some r \<Rightarrow> ref_unitName r | None \<Rightarrow> unitName n)
      in case nutrientName_v of
           Some nm \<Rightarrow>
             if nm \<noteq> []
             then nutrientMap(toLowerCase nm \<mapsto>
                    \<lparr>nutrient_value = nutrientValue, nutrient_unit = nutrientUnit\<rparr>)
             else nutrientMap
         | None \<Rightarrow> nutrientMap)"

definition extractNutrients :: "nutrients_arg \<Rightarrow> (string \<rightharpoonup> nutrient)" where
  "extractNutrients nutrients_in =
     (case nutrients_in of
        NutrientArray ns \<Rightarrow> foldl extractNutrientsStep Map.empty ns
      | _ \<Rightarrow> Map.empty)"

text \<open>
  A food record of the search response. \<open>food_calories\<close> is an explicit \<open>calories\<close> field of
  the record, when the record has one; no function of the provider reads it.
\<close>

record api_food =
  food_fdcId :: nat
  food_description :: string
  food_dataType :: string
  foodNutrients :: nutrients_arg
  food_calories :: "int option"
  food_ingredients :: "string list"
  food_servingSize :: "rat option"
  food_servingSizeUnit :: "string option"
  food_brandOwner :: "string option"
  food_score :: "rat option"

definition extractServingSize :: "rat option \<Rightarrow> string option \<Rightarrow> (rat \<times> string) option" where
  "extractServingSize size_v unit_v =
     (if \<not> truthyNum size_v then None
      else Some (orZero size_v,
                 (case unit_v of Some u \<Rightarrow> if u = [] then ''g'' else u | None \<Rightarrow> ''g'')))"

text \<open>The body of the \<open>map\<close> in \<open>_transformSearchResults\<close>.\<close>

definition transformFood :: "api_food \<Rightarrow> candidate" where
  "transformFood food =
     \<lparr>fdcId = food_fdcId food,
      description = food_description food,
      dataType = food_dataType food,
      calories = extractCalories (foodNutrients food),
      nutrients = Some (extractNutrients (foodNutrients food)),
      ingredients = food_ingredients food,
      servingSize = extractServingSize (food_servingSize food) (food_servingSizeUnit food),
      brandOwner = food_brandOwner food,
      score = food_score food\<rparr>"

definition transformSearchResults :: "api_food list option \<Rightarrow> candidate list" where
  "transformSearchResults foods =
     (case foods of None \<Rightarrow> [] | Some fs \<Rightarrow> map transformFood fs)"

section \<open>FoodService: best match, cache and resolution\<close>

text \<open>
  \<open>_findBestMatch\<close> assigns to the \<open>calories\<close> property of an element of the list it was
  given. The model returns the selected candidate as it is after the call, and the list as
  it is after the call: \<open>updateFirst P f xs\<close> applies \<open>f\<close> to the element that
  \<open>find P xs\<close> returns and leaves the others.
\<close>

fun updateFirst :: "('a \<Rightarrow> bool) \<Rightarrow> ('a \<Rightarrow> 'a) \<Rightarrow> 'a list \<Rightarrow> 'a list" where
  "updateFirst P f [] = []"
| "updateFirst P f (x # xs) = (if P x then f x # xs else x # updateFirst P f xs)"

definition isExactMatch :: "string \<Rightarrow> candidate \<Rightarrow> bool" where
  "isExactMatch dishName item = (toLowerCase (description item) = toLowerCase dishName)"

definition hasCalories :: "candidate \<Rightarrow> bool" where
  "hasCalories item =
     (truthyInt (calories item) \<and> (case calories item of Some c \<Rightarrow> c > 0 | None \<Rightarrow> False))"

definition energyOf :: "candidate \<Rightarrow> nutrient option" where
  "energyOf item = (case nutrients item of None \<Rightarrow> None | Some m \<Rightarrow> m ''energy'')"

definition hasEnergyNutrient :: "candidate \<Rightarrow> bool" where
  "hasEnergyNutrient item =
     (case energyOf item of Some e \<Rightarrow> nutrient_value e > 0 | None \<Rightarrow> False)"

definition setCaloriesFromEnergy :: "candidate \<Rightarrow> candidate" where
  "setCaloriesFromEnergy item =
     (case energyOf item of
        Some e \<Rightarrow> item\<lparr>calories := Some (Math_round (nutrient_value e))\<rparr>
      | None \<Rightarrow> item)"

definition findBestMatch :: "string \<Rightarrow> candidate list \<Rightarrow> candidate option \<times> candidate list" where
  "findBestMatch dishName searchResults_arg =
     (case searchResults_arg of
        [] \<Rightarrow> (None, searchResults_arg)
      | firstResult # others \<Rightarrow>
          let exactMatch = find (isExactMatch dishName) searchResults_arg in
          if (case exactMatch of Some m \<Rightarrow> truthyInt (calories m) | None \<Rightarrow> False)
          then (exactMatch, searchResults_arg)
          else
            let withCalories = find hasCalories searchResults_arg in
            if withCalories \<noteq> None
            then (withCalories, searchResults_arg)
            else
              (case find hasEnergyNutrient searchResults_arg of
                 Some withEnergyNutrient \<Rightarrow>
                   (Some (setCaloriesFromEnergy withEnergyNutrient),
                    updateFirst hasEnergyNutrient setCaloriesFromEnergy searchResults_arg)
               | None \<Rightarrow>
                   (Some (setCaloriesFromEnergy firstResult),
                    setCaloriesFromEnergy firstResult # others)))"

subsection \<open>The result cache\<close>

text \<open>
  Modelled from the spec: ResultCache, the in-memory key/value store with a time-to-live
  per entry (the cache library is not among the sources). An entry holds its value and its
  expiry instant in milliseconds; \<open>set\<close> at instant \<open>now\<close> with a lifetime of \<open>ttl\<close> seconds
  makes the entry expire at \<open>now + 1000 * ttl\<close>; \<open>get\<close> returns the value of an entry
  that has not expired, and nothing otherwise. A read never extends a lifetime, and an
  expired entry counts as absent. Only the entries under the keys of \<open>getCalories\<close> are
  modelled; their values are results.
\<close>

type_synonym result_cache = "string \<rightharpoonup> (calorie_result \<times> nat)"

definition cache_get :: "result_cache \<Rightarrow> string \<Rightarrow> nat \<Rightarrow> calorie_result option" where
  "cache_get c key now =
     (case c key of
        None \<Rightarrow> None
      | Some (v, expiry) \<Rightarrow> if expiry < now then None else Some v)"

definition cache_set :: "result_cache \<Rightarrow> string \<Rightarrow> calorie_result \<Rightarrow> nat \<Rightarrow> nat \<Rightarrow> result_cache" where
  "cache_set c key v ttl now = c(key \<mapsto> (v, now + 1000 * ttl))"

subsection \<open>getCalories\<close>

text \<open>
  The state of a service instance: its cache, and two counters of the effects it has
  caused, the calls of the provider's \<open>searchFood\<close> and the calls of the cache's \<open>set\<close>.
\<close>

record service_state =
  cache :: result_cache
  upstreamCalls :: nat
  cacheWrites :: nat

text \<open>
  The provider's \<open>searchFood(query, {pageSize})\<close> is a parameter: from the number of search
  calls made before, the query and the page size it gives the message of the error it
  throws, or the list it resolves to (\<open>None\<close> for \<open>null\<close>).
\<close>

type_synonym search_fn = "nat \<Rightarrow> string \<Rightarrow> nat \<Rightarrow> string + candidate list option"

text \<open>
  \<open>getCalories(dishName, servings)\<close>, called at the instant \<open>now\<close>, with the default lifetime
  \<open>stdTTL\<close> of the cache in seconds (a call is taken to happen at one instant). \<open>Inl\<close> is
  the error that the \<open>catch\<close> block rethrows through \<open>_handleError\<close>.
\<close>

definition notFoundUnavailable :: js_error where
  "notFoundUnavailable = Error NotFoundError ''Dish not found or calorie information unavailable''"

definition getCalories ::
  "(rat \<Rightarrow> string) \<Rightarrow> nat \<Rightarrow> search_fn \<Rightarrow> nat \<Rightarrow> jsval \<Rightarrow> jsval \<Rightarrow> service_state
     \<Rightarrow> (service_error + calorie_result) \<times> service_state" where
  "getCalories numberToString stdTTL searchFood now dishName_arg servings_arg st =
     (case validateInput dishName_arg servings_arg of
        Some e \<Rightarrow> (Inl (handleError e), st)
      | None \<Rightarrow>
          let dishName = strOf dishName_arg;
              servings_v = numOf servings_arg;
              cacheKey = generateCacheKey numberToString dishName servings_v
          in
          (case cache_get (cache st) cacheKey now of
             Some cachedResult \<Rightarrow> (Inr cachedResult, st)
           | None \<Rightarrow>
               let st1 = st\<lparr>upstreamCalls := upstreamCalls st + 1\<rparr> in
               (case searchFood (upstreamCalls st) dishName 10 of
                  Inl msg \<Rightarrow> (Inl (handleError (Error ProviderError msg)), st1)
                | Inr None \<Rightarrow> (Inl (handleError (Error NotFoundError ''Dish not found'')), st1)
                | Inr (Some found) \<Rightarrow>
                    if length found = 0
                    then (Inl (handleError (Error NotFoundError ''Dish not found'')), st1)
                    else
                      (case fst (findBestMatch dishName found) of
                         None \<Rightarrow> (Inl (handleError notFoundUnavailable), st1)
                       | Some bestMatch \<Rightarrow>
                           if \<not> truthyInt (calories bestMatch)
                           then (Inl (handleError notFoundUnavailable), st1)
                           else
                             (case calculateCalories bestMatch servings_v of
                                Inl e \<Rightarrow> (Inl (handleError e), st1)
                              | Inr result0 \<Rightarrow>
                                  let result = result0\<lparr>searchResults := Some (length found),
                                                       matchScore := score bestMatch,
                                                       timestamp := Some now\<rparr>
                                  in (Inr result,
                                      st1\<lparr>cache := cache_set (cache st1) cacheKey result stdTTL now,
                                          cacheWrites := cacheWrites st1 + 1\<rparr>))))))"

section \<open>The batch controller\<close>

text \<open>
  An element of the \<open>dishes\<close> array: \<open>null\<close>, or a value whose properties \<open>dish_name\<close> and
  \<open>servings\<close> can be read (\<open>JUndefined\<close> for a property it does not have).
\<close>

datatype dish = NullDish | Dish (item_dish_name: jsval) (item_servings: jsval)






section \<open>Sample data\<close>

text \<open>
  A candidate with the given description, calorie value and energy nutrient value, the
  state of a freshly constructed service, and a provider whose search always resolves to
  the same list.
\<close>

definition candidateOf :: "string \<Rightarrow> int option \<Rightarrow> rat option \<Rightarrow> candidate" where
  "candidateOf d c e =
     \<lparr>fdcId = 1, description = d, dataType = ''SR Legacy'', calories = c,
      nutrients = (case e of
                     None \<Rightarrow> None
                   | Some v \<Rightarrow>
                       Some [''energy'' \<mapsto> \<lparr>nutrient_value = v, nutrient_unit = Some ''KCAL''\<rparr>]),
      ingredients = [], servingSize = None, brandOwner = None, score = Some 95\<rparr>"

definition initialState :: service_state where
  "initialState = \<lparr>cache = Map.empty, upstreamCalls = 0, cacheWrites = 0\<rparr>"

definition constSearch :: "candidate list \<Rightarrow> search_fn" where
  "constSearch found = (\<lambda>n query pageSize. Inr (Some found))"

definition macaroniResult :: calorie_result where
  "macaroniResult =
     \<lparr>dish_name = ''Macaroni and cheese'', servings = 2, calories_per_serving = 350,
      total_calories = Finite 700, source = ''USDA FoodData Central'', result_ingredients = [],
      result_nutrients = Map.empty, searchResults = Some 1, matchScore = Some 95,
      timestamp = Some 0\<rparr>"

definition macaroniState :: service_state where
  "macaroniState =
     \<lparr>cache = [''calories_macaroni and cheese_2'' \<mapsto> (macaroniResult, 3600000)],
      upstreamCalls = 1, cacheWrites = 1\<rparr>"

definition failSearch :: "string \<Rightarrow> search_fn" where
  "failSearch msg = (\<lambda>n query pageSize. Inl msg)"

text \<open>A dish name of 201 characters that is five characters long once trimmed.\<close>

definition paddedName :: string where
  "paddedName = ''pizza'' @ replicate 196 (CHR '' '')"

section \<open>Notions used to state the selection rules\<close>

text \<open>
  \<open>firstWith P xs x\<close>: \<open>x\<close> is the first element of \<open>xs\<close>, in the order of the list,
  that satisfies \<open>P\<close>. \<open>firstIndex P xs\<close> is its position.
\<close>

definition firstWith :: "('a \<Rightarrow> bool) \<Rightarrow> 'a list \<Rightarrow> 'a \<Rightarrow> bool" where
  "firstWith P xs x \<longleftrightarrow> (\<exists>i<length xs. xs ! i = x \<and> P x \<and> (\<forall>j<i. \<not> P (xs ! j)))"

fun firstIndex :: "('a \<Rightarrow> bool) \<Rightarrow> 'a list \<Rightarrow> nat option" where
  "firstIndex P [] = None"
| "firstIndex P (x # xs) = (if P x then Some 0 else map_option Suc (firstIndex P xs))"

text \<open>
  The first rule of \<open>_findBestMatch\<close> applies: the first candidate whose description
  equals the dish name, case-insensitively, has a calorie value that is neither missing nor
  \<open>0\<close>. \<open>exactOK\<close> is the same test as the source writes it.
\<close>

definition exactWithCalories :: "string \<Rightarrow> candidate list \<Rightarrow> bool" where
  "exactWithCalories d xs \<longleftrightarrow>
     (\<exists>m. firstWith (\<lambda>x. toLowerCase (description x) = toLowerCase d) xs m \<and>
          truthyInt (calories m))"

definition exactOK :: "string \<Rightarrow> candidate list \<Rightarrow> bool" where
  "exactOK d xs =
     (case find (isExactMatch d) xs of Some m \<Rightarrow> truthyInt (calories m) | None \<Rightarrow> False)"

text \<open>
  The selection as section 4.2 of the specification words it: (1) a candidate whose
  description equals the query case-insensitively and that has a resolved calorie value;
  (2) the first candidate with a resolved calorie value above 0; (3) the first candidate
  with an energy nutrient above 0, with the calorie value derived from it; (4) the first
  candidate.
\<close>

definition specBestMatch :: "string \<Rightarrow> candidate list \<Rightarrow> candidate option" where
  "specBestMatch dishName xs =
     (case find (\<lambda>x. toLowerCase (description x) = toLowerCase dishName \<and> calories x \<noteq> None) xs of
        Some m \<Rightarrow> Some m
      | None \<Rightarrow>
          (case find (\<lambda>x. case calories x of Some c \<Rightarrow> 0 < c | None \<Rightarrow> False) xs of
             Some m \<Rightarrow> Some m
           | None \<Rightarrow>
               (case find (\<lambda>x. case energyOf x of Some e \<Rightarrow> 0 < nutrient_value e
                                                 | None \<Rightarrow> False) xs of
                  Some m \<Rightarrow> Some (setCaloriesFromEnergy m)
                | None \<Rightarrow> (case xs of [] \<Rightarrow> None | x # rest \<Rightarrow> Some x))))"

text \<open>
  Two search results: one in which the first candidate named like the query has no
  calorie value while a later one has, and one in which only an energy nutrient gives
  a calorie value.
\<close>

definition pizzaList :: "candidate list" where
  "pizzaList =
     [candidateOf ''Pizza'' None None,
      candidateOf ''Calzone'' (Some 50) None,
      candidateOf ''PIZZA'' (Some 100) None]"

definition soupList :: "candidate list" where
  "soupList =
     [candidateOf ''Salad'' None None,
      candidateOf ''Soup'' (Some 0) (Some (5 / 2))]"

section \<open>Notions used to state the calorie extraction\<close>

text \<open>
  An entry of the nutrient list is an energy entry in the words of the specification: its
  nutrient identifier is 208, or its name contains \<open>energy\<close> case-insensitively, wherever
  the entry carries the identifier and the name.
\<close>

definition containsEnergy :: "string option \<Rightarrow> bool" where
  "containsEnergy nm =
     (case nm of Some s \<Rightarrow> includes_str (toLowerCase s) ''energy'' | None \<Rightarrow> False)"

definition specIsEnergy :: "api_nutrient \<Rightarrow> bool" where
  "specIsEnergy n =
     (nutrientId n = Some 208 \<or>
      (case nutrient_ref n of Some r \<Rightarrow> ref_id r = Some 208 | None \<Rightarrow> False) \<or>
      containsEnergy (nutrientName n) \<or>
      (case nutrient_ref n of Some r \<Rightarrow> containsEnergy (ref_name r) | None \<Rightarrow> False))"

text \<open>
  The extraction policy as section 4.1 of the specification words it: an explicit
  \<open>calories\<close> field if present, otherwise the rounded value of the energy entry of the
  nutrient list, otherwise nothing.
\<close>

definition specExtractCalories :: "api_food \<Rightarrow> int option" where
  "specExtractCalories food =
     (case food_calories food of
        Some c \<Rightarrow> Some c
      | None \<Rightarrow>
          (case foodNutrients food of
             NutrientArray ns \<Rightarrow>
               (case find specIsEnergy ns of
                  Some e \<Rightarrow> Some (Math_round (orElse0 (api_value e) (api_amount e)))
                | None \<Rightarrow> None)
           | _ \<Rightarrow> None))"

text \<open>
  Entries of a nutrient list in the two formats of the API, with the fields flat in the
  entry or nested under \<open>nutrient\<close>, and a food record with the given \<open>calories\<close> field
  and nutrients.
\<close>

definition flatNutrient :: "int \<Rightarrow> string \<Rightarrow> rat \<Rightarrow> api_nutrient" where
  "flatNutrient i nm v =
     \<lparr>nutrientId = Some i, nutrientName = Some nm, nutrient_ref = None,
      api_value = Some v, api_amount = None, unitName = Some ''KCAL''\<rparr>"

definition nestedNutrient :: "int \<Rightarrow> string \<Rightarrow> rat \<Rightarrow> api_nutrient" where
  "nestedNutrient i nm a =
     \<lparr>nutrientId = None, nutrientName = None,
      nutrient_ref = Some \<lparr>ref_id = Some i, ref_name = Some nm, ref_unitName = Some ''kcal''\<rparr>,
      api_value = None, api_amount = Some a, unitName = None\<rparr>"

definition foodOf :: "int option \<Rightarrow> nutrients_arg \<Rightarrow> api_food" where
  "foodOf c ns =
     \<lparr>food_fdcId = 170000, food_description = ''Cheese, cheddar'', food_dataType = ''SR Legacy'',
      foodNutrients = ns, food_calories = c, food_ingredients = [], food_servingSize = None,
      food_servingSizeUnit = None, food_brandOwner = None, food_score = Some 100\<rparr>"

section \<open>Double-precision arithmetic\<close>

text \<open>
  Every integer of magnitude at most \<open>2 ^ 53\<close> is a double, and \<open>toDouble\<close> is a rounding:
  a finite result differs from the rational it rounds by at most half a quantum, which is
  at most the fraction \<open>1 / 2 ^ 53\<close> of the magnitude for a normal number and
  \<open>1 / 2 ^ 1075\<close> for a subnormal one.
\<close>

lemma roundHalfEven_of_int: "roundHalfEven (of_int n) = n"
  by (simp add: roundHalfEven_def)

lemma binade_of_int: "n \<noteq> 0 \<Longrightarrow> binade (of_int n) = bitlen \<bar>n\<bar> - 1"
proof -
  assume n: "n \<noteq> 0"
  have f: "\<lfloor>\<bar>of_int n :: rat\<bar>\<rfloor> = \<bar>n\<bar>"
    by (simp only: of_int_abs[symmetric] floor_of_int)
  have b: "(1::rat) \<le> \<bar>of_int n\<bar>"
    using n by simp
  show ?thesis
    by (simp only: binade_def f b if_True)
qed

lemma pow2_neg: "k \<le> 0 \<Longrightarrow> pow2 k = 1 / 2 ^ nat (- k)"
  by (simp add: pow2_def)

lemma pow2_pos: "0 < pow2 k"
  by (simp add: pow2_def)

lemma toDouble_of_int:
  assumes "\<bar>n\<bar> \<le> 2 ^ 53"
  shows "toDouble (of_int n) = Finite (of_int n)"
proof (cases "n = 0")
  case True
  then show ?thesis by (simp add: toDouble_def)
next
  case False
  define e where "e = bitlen \<bar>n\<bar> - 1"
  have pos: "0 < \<bar>n\<bar>" using False by simp
  have bl: "2 ^ nat e \<le> \<bar>n\<bar>" "\<bar>n\<bar> < 2 ^ nat (e + 1)"
    using bitlen_bounds[OF pos] by (simp_all add: e_def)
  have e0: "0 \<le> e"
    using pos by (simp add: e_def bitlen_def floorlog_def)
  have h: "(2::int) ^ nat e \<le> 2 ^ 53"
    using bl(1) assms by linarith
  have "nat e \<le> 53"
    by (rule power_le_imp_le_exp[OF _ h]) simp
  then have e53: "e \<le> 53"
    by linarith
  have bn: "binade (of_int n) = e"
    using binade_of_int[OF False] by (simp add: e_def)
  have mx: "max (e - 52) (- 1074) = e - 52"
    using e0 by simp
  have big: "(of_int \<bar>n\<bar> :: rat) < 2 ^ 1024"
  proof -
    have "\<bar>n\<bar> < 2 ^ 1024"
      using assms by (rule le_less_trans) simp
    then show ?thesis
      by (metis of_int_less_iff of_int_numeral of_int_power)
  qed
  have lim: "\<not> (2 ^ 1024 \<le> (of_int n :: rat))" "\<not> ((of_int n :: rat) \<le> - (2 ^ 1024))"
    using big by (simp_all add: abs_if split: if_splits)
  have y: "of_int (roundHalfEven (of_int n / pow2 (e - 52))) * pow2 (e - 52) = (of_int n :: rat)"
  proof (cases "e \<le> 52")
    case True
    then have p: "pow2 (e - 52) = 1 / 2 ^ nat (52 - e)"
      using pow2_neg[of "e - 52"] by simp
    have "(of_int n :: rat) / pow2 (e - 52) = of_int (n * 2 ^ nat (52 - e))"
      by (simp add: p)
    then have "roundHalfEven (of_int n / pow2 (e - 52)) = n * 2 ^ nat (52 - e)"
      by (simp only: roundHalfEven_of_int)
    then show ?thesis
      by (simp add: p)
  next
    case False
    then have e: "e = 53" using e53 by simp
    then have "\<bar>n\<bar> = 2 ^ 53"
      using bl(1) assms by simp
    then obtain m where m: "n = 2 * m"
      by (cases "0 \<le> n") (auto simp: abs_if intro: that[of "2 ^ 52"] that[of "- (2 ^ 52)"])
    have p: "pow2 (e - 52) = 2"
      by (simp add: e pow2_def)
    have "(of_int n :: rat) / pow2 (e - 52) = of_int m"
      by (simp add: p m)
    then have "roundHalfEven (of_int n / pow2 (e - 52)) = m"
      by (simp only: roundHalfEven_of_int)
    then show ?thesis
      by (simp add: p m)
  qed
  show ?thesis
    using False lim by (simp add: toDouble_def bn mx y Let_def)
qed


lemma isDouble_of_int: "\<bar>n\<bar> \<le> 2 ^ 53 \<Longrightarrow> isDouble (of_int n)"
  by (simp add: isDouble_def toDouble_of_int)

lemma pow2_powi: "pow2 k = 2 powi k"
  by (simp add: pow2_def power_int_def inverse_eq_divide power_one_over)

lemma pow2_diff: "pow2 (a - b) = pow2 a / pow2 b"
  by (simp add: pow2_powi power_int_diff)

lemma pow2_add: "pow2 (a + b) = pow2 a * pow2 b"
  by (simp add: pow2_powi power_int_add)

lemma floor_bitlen:
  fixes a :: rat
  assumes "1 \<le> a"
  shows "2 ^ nat (bitlen \<lfloor>a\<rfloor> - 1) \<le> a \<and> a < 2 ^ nat (bitlen \<lfloor>a\<rfloor>)"
proof -
  have n: "0 < \<lfloor>a\<rfloor>"
    using assms by linarith
  have b: "2 ^ nat (bitlen \<lfloor>a\<rfloor> - 1) \<le> \<lfloor>a\<rfloor>" "\<lfloor>a\<rfloor> + 1 \<le> 2 ^ nat (bitlen \<lfloor>a\<rfloor>)"
    using bitlen_bounds[OF n] by simp_all
  have "(of_int (2 ^ nat (bitlen \<lfloor>a\<rfloor> - 1)) :: rat) \<le> of_int \<lfloor>a\<rfloor>"
    using b(1) by (simp only: of_int_le_iff)
  also have "\<dots> \<le> a"
    by simp
  finally have l: "2 ^ nat (bitlen \<lfloor>a\<rfloor> - 1) \<le> a"
    by simp
  have "a < of_int (\<lfloor>a\<rfloor> + 1)"
    by linarith
  also have "\<dots> \<le> of_int (2 ^ nat (bitlen \<lfloor>a\<rfloor>))"
    using b(2) by (simp only: of_int_le_iff)
  finally have u: "a < 2 ^ nat (bitlen \<lfloor>a\<rfloor>)"
    by simp
  show ?thesis
    using l u by simp
qed

lemma bitlen_floor_pos:
  fixes a :: rat
  assumes "1 \<le> a"
  shows "1 \<le> bitlen \<lfloor>a\<rfloor>"
proof -
  have n: "0 < \<lfloor>a\<rfloor>"
    using assms by linarith
  then show ?thesis
    by (simp add: bitlen_def floorlog_def)
qed

lemma binade_bounds:
  assumes "x \<noteq> 0"
  shows "pow2 (binade x) \<le> \<bar>x\<bar> \<and> \<bar>x\<bar> < pow2 (binade x + 1)"
proof (cases "1 \<le> \<bar>x\<bar>")
  case True
  have e: "binade x = bitlen \<lfloor>\<bar>x\<bar>\<rfloor> - 1"
    using True by (simp add: binade_def)
  have p: "1 \<le> bitlen \<lfloor>\<bar>x\<bar>\<rfloor>"
    by (rule bitlen_floor_pos[OF True])
  show ?thesis
    using floor_bitlen[OF True] p by (simp add: e pow2_def)
next
  case False
  define a where "a = 1 / \<bar>x\<bar>"
  define k where "k = bitlen \<lfloor>a\<rfloor> - 1"
  have xp: "0 < \<bar>x\<bar>" using assms by simp
  have a1: "1 \<le> a"
    using False xp by (simp add: a_def)
  have k0: "0 \<le> k"
    using bitlen_floor_pos[OF a1] by (simp add: k_def)
  have b: "2 ^ nat k \<le> a" "a < 2 ^ nat (k + 1)"
    using floor_bitlen[OF a1] by (simp_all add: k_def)
  have ax: "\<bar>x\<bar> = 1 / a"
    by (simp add: a_def)
  have ap: "0 < a" using a1 by simp
  have u: "\<bar>x\<bar> \<le> 1 / 2 ^ nat k"
    unfolding ax using b(1) ap by (simp add: frac_le)
  have l: "1 / 2 ^ nat (k + 1) < \<bar>x\<bar>"
    unfolding ax using b(2) ap by (simp add: frac_less2)
  have pk: "pow2 (- k) = 1 / 2 ^ nat k"
    using k0 by (simp add: pow2_def)
  have pk1: "pow2 (- k - 1) = 1 / 2 ^ nat (k + 1)"
    using k0 by (simp add: pow2_def nat_add_distrib)
  have one: "pow2 1 = 2"
    by (simp add: pow2_def)
  have pk2: "pow2 (1 - k) = 2 * pow2 (- k)"
    using pow2_add[of 1 "- k"] by (simp add: one)
  have bn: "binade x = (if \<bar>x\<bar> = pow2 (- k) then - k else - k - 1)"
    using False by (simp add: binade_def Let_def k_def a_def)
  show ?thesis
  proof (cases "\<bar>x\<bar> = pow2 (- k)")
    case True
    then show ?thesis
      using pow2_pos[of "- k"] by (simp add: bn pk2)
  next
    case False
    then show ?thesis
      using u l by (simp add: bn pk pk1)
  qed
qed

lemma roundHalfEven_error: "\<bar>of_int (roundHalfEven x) - x\<bar> \<le> 1 / 2"
proof -
  define f where "f = \<lfloor>x\<rfloor>"
  have b: "of_int f \<le> x" "x < of_int f + 1"
    unfolding f_def by linarith+
  have "roundHalfEven x =
      (if x - of_int f < 1 / 2 then f else if 1 / 2 < x - of_int f then f + 1
       else if even f then f else f + 1)"
    by (simp add: roundHalfEven_def Let_def f_def)
  then show ?thesis
    using b by (auto simp: abs_if)
qed

lemma toDouble_error:
  assumes "toDouble x = Finite y"
  shows "\<bar>y - x\<bar> \<le> max (\<bar>x\<bar> / 2 ^ 53) (1 / 2 ^ 1075)"
proof (cases "x = 0")
  case True
  then show ?thesis using assms by (simp add: toDouble_def)
next
  case False
  define q where "q = pow2 (max (binade x - 52) (- 1074))"
  have qp: "0 < q" by (simp add: q_def pow2_pos)
  have y: "y = of_int (roundHalfEven (x / q)) * q"
    using assms False by (simp add: toDouble_def Let_def q_def split: if_splits)
  have "y - x = (of_int (roundHalfEven (x / q)) - x / q) * q"
    using qp by (simp add: y algebra_simps)
  then have "\<bar>y - x\<bar> = \<bar>of_int (roundHalfEven (x / q)) - x / q\<bar> * q"
    using qp by (simp add: abs_mult)
  also have "\<dots> \<le> (1 / 2) * q"
    using roundHalfEven_error[of "x / q"] qp by (simp only: mult_right_mono less_imp_le)
  finally have e: "\<bar>y - x\<bar> \<le> q / 2"
    by simp
  have "q / 2 \<le> max (\<bar>x\<bar> / 2 ^ 53) (1 / 2 ^ 1075)"
  proof (cases "- 1074 \<le> binade x - 52")
    case True
    then have "max (binade x - 52) (- 1074) = binade x - 52"
      by simp
    then have "q = pow2 (binade x) / pow2 52"
      by (simp only: q_def pow2_diff)
    also have "\<dots> = pow2 (binade x) / 2 ^ 52"
      by (simp add: pow2_def)
    also have "\<dots> \<le> \<bar>x\<bar> / 2 ^ 52"
      using binade_bounds[OF False] by (simp add: divide_right_mono)
    finally have "q / 2 \<le> \<bar>x\<bar> / 2 ^ 53"
      by simp
    then show ?thesis
      by (simp add: le_max_iff_disj)
  next
    case False
    then have "q = pow2 (- 1074)"
      by (simp add: q_def max_def)
    then have "q / 2 = 1 / 2 ^ 1075"
      by (simp add: pow2_def)
    then show ?thesis
      by (simp add: le_max_iff_disj)
  qed
  with e show ?thesis
    by (rule order_trans)
qed


lemma pow2_mono: "a \<le> b \<Longrightarrow> pow2 a \<le> pow2 b"
  by (simp add: pow2_powi power_int_increasing)

lemma binade_unique:
  assumes "pow2 e \<le> \<bar>x\<bar>" and "\<bar>x\<bar> < pow2 (e + 1)"
  shows "binade x = e"
proof -
  have "x \<noteq> 0"
    using assms(1) pow2_pos[of e] by auto
  then have b: "pow2 (binade x) \<le> \<bar>x\<bar>" "\<bar>x\<bar> < pow2 (binade x + 1)"
    using binade_bounds by simp_all
  have "\<not> binade x < e"
  proof
    assume "binade x < e"
    then have "pow2 (binade x + 1) \<le> pow2 e"
      by (intro pow2_mono) simp
    then show False
      using b(2) assms(1) by simp
  qed
  moreover have "\<not> e < binade x"
  proof
    assume "e < binade x"
    then have "pow2 (e + 1) \<le> pow2 (binade x)"
      by (intro pow2_mono) simp
    then show False
      using b(1) assms(2) by simp
  qed
  ultimately show ?thesis
    by simp
qed

lemma roundHalfEven_unique:
  assumes "\<bar>of_int m - x\<bar> < 1 / 2"
  shows "roundHalfEven x = m"
proof -
  define f where "f = \<lfloor>x\<rfloor>"
  have b: "of_int f \<le> x" "x < of_int f + 1"
    unfolding f_def by linarith+
  have r: "roundHalfEven x =
      (if x - of_int f < 1 / 2 then f else if 1 / 2 < x - of_int f then f + 1
       else if even f then f else f + 1)"
    by (simp add: roundHalfEven_def Let_def f_def)
  have m: "of_int m - 1 / 2 < x" "x < of_int m + 1 / 2"
    using assms by (simp_all add: abs_if split: if_splits)
  have "(of_int m :: rat) < of_int (f + 2)" "(of_int (f - 1) :: rat) < of_int m"
    using b m by simp_all
  then have range: "m < f + 2" "f - 1 < m"
    by (simp_all only: of_int_less_iff)
  show ?thesis
  proof (cases "m = f")
    case True
    then show ?thesis
      using m b by (simp add: r)
  next
    case False
    then have "m = f + 1"
      using range by simp
    then show ?thesis
      using m b by (simp add: r)
  qed
qed

lemma toDouble_eq:
  assumes "pow2 e \<le> \<bar>x\<bar>" and "\<bar>x\<bar> < pow2 (e + 1)" and "- 1022 \<le> e" and "e < 1023"
    and "\<bar>of_int m - x / pow2 (e - 52)\<bar> < 1 / 2"
  shows "toDouble x = Finite (of_int m * pow2 (e - 52))"
proof -
  define q where "q = pow2 (e - 52)"
  have qp: "0 < q"
    by (simp add: q_def pow2_pos)
  have x0: "x \<noteq> 0"
    using assms(1) pow2_pos[of e] by auto
  have bn: "binade x = e"
    by (rule binade_unique[OF assms(1,2)])
  have mx: "max (e - 52) (- 1074) = e - 52"
    using assms(3) by simp
  have rh: "roundHalfEven (x / q) = m"
    using assms(5) unfolding q_def by (rule roundHalfEven_unique)
  have "of_int m * q - x = (of_int m - x / q) * q"
    using qp by (simp add: algebra_simps)
  then have "\<bar>of_int m * q - x\<bar> = \<bar>of_int m - x / q\<bar> * q"
    using qp by (simp add: abs_mult)
  also have "\<dots> \<le> (1 / 2) * q"
    using assms(5) qp unfolding q_def by (simp only: mult_right_mono less_imp_le)
  finally have d: "\<bar>of_int m * q - x\<bar> \<le> q / 2"
    by simp
  have "q \<le> pow2 1022"
    unfolding q_def using assms(4) by (intro pow2_mono) simp
  moreover have "pow2 (e + 1) \<le> pow2 1023"
    using assms(4) by (intro pow2_mono) simp
  moreover have "pow2 1022 = 2 ^ 1022" "pow2 1023 = 2 ^ 1023"
    by (simp_all add: pow2_def)
  ultimately have "\<bar>of_int m * q\<bar> < 2 ^ 1024"
    using d assms(2) qp by (simp add: abs_if split: if_splits)
  then have lim: "\<not> 2 ^ 1024 \<le> of_int m * q" "\<not> of_int m * q \<le> - (2 ^ 1024)"
    by (simp_all add: abs_if split: if_splits)
  show ?thesis
    using x0 lim unfolding q_def by (simp add: toDouble_def bn mx rh[unfolded q_def] Let_def)
qed

lemma Math_round_of_int: "Math_round (of_int n) = n"
  unfolding Math_round_def by linarith

lemma double_examples:
  "toDouble (3 / 10) = Finite (5404319552844595 / 2 ^ 54)"
  "toDouble (41 / 10) = Finite (2308094809027379 / 2 ^ 49)"
  "isDouble (5404319552844595 / 2 ^ 54)"
  "isDouble (2308094809027379 / 2 ^ 49)"
  "toDouble (of_int 5 * (5404319552844595 / 2 ^ 54)) = Finite (3 / 2)"
  "toDouble (of_int 15 * (2308094809027379 / 2 ^ 49)) = Finite (8655355533852671 / 2 ^ 47)"
  using toDouble_eq[of "- 2" "3 / 10" 5404319552844595]
    toDouble_eq[of 2 "41 / 10" 4616189618054758]
    toDouble_eq[of "- 2" "5404319552844595 / 2 ^ 54" 5404319552844595]
    toDouble_eq[of 2 "2308094809027379 / 2 ^ 49" 4616189618054758]
    toDouble_eq[of 0 "of_int 5 * (5404319552844595 / 2 ^ 54)" 6755399441055744]
    toDouble_eq[of 5 "of_int 15 * (2308094809027379 / 2 ^ 49)" 8655355533852671]
  by (simp_all add: pow2_def isDouble_def)

lemma Math_round_error: "\<bar>of_int (Math_round x) - x\<bar> \<le> 1 / 2"
  unfolding Math_round_def by (simp add: abs_if) linarith

lemma macaroni_total: "Math_round_ext (Number_multiply (of_int 350) 2) = Finite 700"
  using toDouble_of_int[of 700] by (simp add: Number_multiply_def Math_round_def floor_eq_iff)

section \<open>Validation and the paths of getCalories\<close>

lemma validateInput_None_iff:
  "validateInput dn sv = None \<longleftrightarrow>
     (\<exists>d s. dn = JStr d \<and> sv = JNum s \<and> trim d \<noteq> [] \<and> length d \<le> 200 \<and> 0 < s \<and> s \<le> 50)"
proof (cases dn)
  case (JStr d)
  then show ?thesis
    by (cases sv) (auto simp: validateInput_def trim_def)
qed (simp_all add: validateInput_def)

lemma calculateCalories_ok:
  assumes "calories item = Some c" "c \<noteq> 0" "0 < s"
  shows "calculateCalories item s =
     Inr \<lparr>dish_name = description item, servings = s, calories_per_serving = c,
          total_calories = Math_round_ext (Number_multiply (of_int c) s),
          source = ''USDA FoodData Central'',
          result_ingredients = ingredients item,
          result_nutrients = (case nutrients item of None \<Rightarrow> Map.empty | Some m \<Rightarrow> m),
          searchResults = None, matchScore = None, timestamp = None\<rparr>"
  using assms by (simp add: calculateCalories_def getProviderInfo_def)

lemma calculateCalories_falsy:
  "\<not> truthyInt (calories item) \<Longrightarrow>
   calculateCalories item s = Inl (Error InvalidInput ''Invalid food item or missing calorie data'')"
  by (simp add: calculateCalories_def)

lemma getCalories_invalid:
  "validateInput dn sv = Some e \<Longrightarrow>
   getCalories toStr ttl search now dn sv st = (Inl (handleError e), st)"
  by (simp add: getCalories_def)

lemma getCalories_hit:
  "validateInput dn sv = None \<Longrightarrow>
   cache_get (cache st) (generateCacheKey toStr (strOf dn) (numOf sv)) now = Some r \<Longrightarrow>
   getCalories toStr ttl search now dn sv st = (Inr r, st)"
  by (simp add: getCalories_def)

lemma findBestMatch_Nil: "findBestMatch d [] = (None, [])"
  by (simp add: findBestMatch_def)

lemma getCalories_miss_success:
  assumes "validateInput dn sv = None"
    and "cache_get (cache st) (generateCacheKey toStr (strOf dn) (numOf sv)) now = None"
    and "search (upstreamCalls st) (strOf dn) 10 = Inr (Some found)"
    and "fst (findBestMatch (strOf dn) found) = Some bm"
    and "calories bm = Some c" and "c \<noteq> 0"
  shows "getCalories toStr ttl search now dn sv st =
     (let r = \<lparr>dish_name = description bm, servings = numOf sv, calories_per_serving = c,
          total_calories = Math_round_ext (Number_multiply (of_int c) (numOf sv)),
          source = ''USDA FoodData Central'',
          result_ingredients = ingredients bm,
          result_nutrients = (case nutrients bm of None \<Rightarrow> Map.empty | Some m \<Rightarrow> m),
          searchResults = Some (length found), matchScore = score bm, timestamp = Some now\<rparr>
      in (Inr r,
          \<lparr>cache = cache_set (cache st) (generateCacheKey toStr (strOf dn) (numOf sv)) r ttl now,
           upstreamCalls = upstreamCalls st + 1, cacheWrites = cacheWrites st + 1\<rparr>))"
proof -
  from assms(1) obtain d s where ds: "dn = JStr d" "sv = JNum s" "0 < s"
    unfolding validateInput_None_iff by blast
  have ne: "found \<noteq> []"
    using assms(4) by (auto simp: findBestMatch_Nil)
  have cc: "calculateCalories bm (numOf sv) =
     Inr \<lparr>dish_name = description bm, servings = numOf sv, calories_per_serving = c,
          total_calories = Math_round_ext (Number_multiply (of_int c) (numOf sv)),
          source = ''USDA FoodData Central'',
          result_ingredients = ingredients bm,
          result_nutrients = (case nutrients bm of None \<Rightarrow> Map.empty | Some m \<Rightarrow> m),
          searchResults = None, matchScore = None, timestamp = None\<rparr>"
    using calculateCalories_ok[OF assms(5,6), of "numOf sv"] ds by simp
  show ?thesis
    using assms ne cc by (simp add: getCalories_def Let_def)
qed

lemma findBestMatch_single_exact:
  assumes "toLowerCase (description item) = toLowerCase d" and "truthyInt (calories item)"
  shows "findBestMatch d [item] = (Some item, [item])"
  using assms by (simp add: findBestMatch_def isExactMatch_def)

lemma lower_macaroni:
  "toLowerCase ''Macaroni and cheese'' = ''macaroni and cheese''"
  "toLowerCase ''macaroni and cheese'' = ''macaroni and cheese''"
  by code_simp+

lemma trim_macaroni: "trim ''macaroni and cheese'' = ''macaroni and cheese''"
  by (simp add: trim_def isWhiteSpace_def)

section \<open>Calorie totals\<close>

text \<open>
  Claim C1, as the code has it. A candidate whose calorie value is \<open>0\<close> is refused by
  \<open>calculateCalories\<close> like a candidate without a calorie value, for every servings
  count: at the candidate \<open>apple\<close> with calorie value \<open>0\<close> and \<open>2\<close> servings no result is
  returned. And the total is the rounded double product, which is not always the rounded
  exact product. The double nearest to \<open>0.3\<close> is \<open>5404319552844595 / 2 ^ 54\<close>, a little
  below \<open>0.3\<close>; for \<open>5\<close> calories per serving the exact product is a little below \<open>1.5\<close>
  and rounds to \<open>1\<close>, while the double product is \<open>1.5\<close> and the total \<open>2\<close>. The servings
  value \<open>4.1\<close> of a request is the double \<open>2308094809027379 / 2 ^ 49\<close>; for \<open>15\<close> calories
  per serving the total is \<open>61\<close>, while \<open>15 * 4.1 = 61.5\<close> rounds to \<open>62\<close>.
\<close>

theorem calculateCalories_total_not_round:
  "calories (candidateOf ''apple'' (Some 0) None) = Some 0 \<and> (0::rat) < 2 \<and> (2::rat) \<le> 50 \<and>
   isDouble (of_int 0) \<and> isDouble 2 \<and>
   calculateCalories (candidateOf ''apple'' (Some 0) None) 2 =
     Inl (Error InvalidInput ''Invalid food item or missing calorie data'') \<and>
   calories (candidateOf ''rice'' (Some 5) None) = Some 5 \<and>
   (0::rat) < 5404319552844595 / 2 ^ 54 \<and> (5404319552844595 / 2 ^ 54 :: rat) \<le> 50 \<and>
   isDouble (of_int 5) \<and> isDouble (5404319552844595 / 2 ^ 54) \<and>
   toDouble (3 / 10) = Finite (5404319552844595 / 2 ^ 54) \<and>
   (\<exists>r. calculateCalories (candidateOf ''rice'' (Some 5) None) (5404319552844595 / 2 ^ 54) = Inr r \<and>
        calories_per_serving r = 5 \<and> total_calories r = Finite 2) \<and>
   Math_round (of_int 5 * (5404319552844595 / 2 ^ 54)) = 1 \<and>
   calories (candidateOf ''rice'' (Some 15) None) = Some 15 \<and>
   (0::rat) < 2308094809027379 / 2 ^ 49 \<and> (2308094809027379 / 2 ^ 49 :: rat) \<le> 50 \<and>
   isDouble (of_int 15) \<and> isDouble (2308094809027379 / 2 ^ 49) \<and>
   toDouble (41 / 10) = Finite (2308094809027379 / 2 ^ 49) \<and>
   (\<exists>r. calculateCalories (candidateOf ''rice'' (Some 15) None) (2308094809027379 / 2 ^ 49) = Inr r \<and>
        calories_per_serving r = 15 \<and> total_calories r = Finite 61) \<and>
   Math_round (of_int 15 * (41 / 10)) = 62"
proof -
  have a: "calories (candidateOf ''apple'' (Some 0) None) = Some 0 \<and> (0::rat) < 2 \<and>
      (2::rat) \<le> 50 \<and>
      calculateCalories (candidateOf ''apple'' (Some 0) None) 2 =
        Inl (Error InvalidInput ''Invalid food item or missing calorie data'')"
    by (simp add: candidateOf_def calculateCalories_def)
  have d: "isDouble (of_int 0)" "isDouble 2" "isDouble (of_int 5)" "isDouble (of_int 15)"
    using isDouble_of_int[of 0] isDouble_of_int[of 2] isDouble_of_int[of 5] isDouble_of_int[of 15]
    by simp_all
  have s: "isDouble (5404319552844595 / 2 ^ 54)" "isDouble (2308094809027379 / 2 ^ 49)"
      "toDouble (3 / 10) = Finite (5404319552844595 / 2 ^ 54)"
      "toDouble (41 / 10) = Finite (2308094809027379 / 2 ^ 49)"
    by (rule double_examples)+
  have m: "Math_round_ext (Number_multiply (of_int 5) (5404319552844595 / 2 ^ 54)) = Finite 2"
      "Math_round_ext (Number_multiply (of_int 15) (2308094809027379 / 2 ^ 49)) = Finite 61"
    by (simp_all only: Number_multiply_def double_examples Math_round_ext.simps)
      (simp_all add: Math_round_def floor_eq_iff)
  have e: "Math_round (of_int 5 * (5404319552844595 / 2 ^ 54)) = 1"
      "Math_round (of_int 15 * (41 / 10)) = 62"
    by (simp_all add: Math_round_def floor_eq_iff)
  have c5: "calories (candidateOf ''rice'' (Some 5) None) = Some 5"
    and c15: "calories (candidateOf ''rice'' (Some 15) None) = Some 15"
    by (simp_all add: candidateOf_def)
  have p: "(0::rat) < 5404319552844595 / 2 ^ 54" "(5404319552844595 / 2 ^ 54 :: rat) \<le> 50"
      "(0::rat) < 2308094809027379 / 2 ^ 49" "(2308094809027379 / 2 ^ 49 :: rat) \<le> 50"
    by simp_all
  have r5: "\<exists>r. calculateCalories (candidateOf ''rice'' (Some 5) None)
                 (5404319552844595 / 2 ^ 54) = Inr r \<and>
               calories_per_serving r = 5 \<and> total_calories r = Finite 2"
    using calculateCalories_ok[OF c5 _ p(1)] m(1) by simp
  have r15: "\<exists>r. calculateCalories (candidateOf ''rice'' (Some 15) None)
                  (2308094809027379 / 2 ^ 49) = Inr r \<and>
                calories_per_serving r = 15 \<and> total_calories r = Finite 61"
    using calculateCalories_ok[OF c15 _ p(3)] m(2) by simp
  show ?thesis
    by (intro conjI) (rule a[THEN conjunct1] a[THEN conjunct2, THEN conjunct1]
        a[THEN conjunct2, THEN conjunct2, THEN conjunct1]
        a[THEN conjunct2, THEN conjunct2, THEN conjunct2] d s e c5 c15 p r5 r15)+
qed

text \<open>
  Claim C1, amended: for every candidate with a resolved calorie value \<open>c\<close> other than \<open>0\<close>
  and every servings count \<open>s\<close> with \<open>0 < s \<le> 50\<close>, both of them doubles,
  \<open>calculateCalories\<close> returns a result whose \<open>calories_per_serving\<close> is \<open>c\<close> and whose
  \<open>total_calories\<close> is \<open>Math.round\<close> of the double product of \<open>c\<close> and \<open>s\<close>. That total is
  \<open>round (c * s)\<close> whenever the exact product \<open>c * s\<close> is a double, as it is for a whole number
  of servings with \<open>\<bar>c * s\<bar> \<le> 2 ^ 53\<close>; and a finite total never differs from \<open>c * s\<close> by
  more than a half plus the rounding error of the product, which is at most the larger of
  \<open>\<bar>c * s\<bar> / 2 ^ 53\<close> and \<open>1 / 2 ^ 1075\<close>. \<open>getCalories\<close> returns a result with the same two
  fields whenever it is called with \<open>s\<close> servings, misses the cache and selects that
  candidate as the best match.
\<close>

theorem calculateCalories_total:
  assumes "calories item = Some c" and "c \<noteq> 0" and "0 < s" and "s \<le> 50"
    and "isDouble (of_int c)" and "isDouble s"
  shows "(\<exists>r. calculateCalories item s = Inr r \<and> calories_per_serving r = c \<and>
              total_calories r = Math_round_ext (Number_multiply (of_int c) s) \<and>
              (isDouble (of_int c * s) \<longrightarrow>
                 total_calories r = Finite (Math_round (of_int c * s))) \<and>
              (\<forall>k. s = of_int k \<and> \<bar>c * k\<bar> \<le> 2 ^ 53 \<longrightarrow> total_calories r = Finite (c * k)) \<and>
              (\<forall>t. total_calories r = Finite t \<longrightarrow>
                 \<bar>of_int t - of_int c * s\<bar>
                   \<le> 1 / 2 + max (\<bar>of_int c * s\<bar> / 2 ^ 53) (1 / 2 ^ 1075))) \<and>
         (\<forall>toStr ttl search now dn st found.
            validateInput dn (JNum s) = None \<and>
            cache_get (cache st) (generateCacheKey toStr (strOf dn) s) now = None \<and>
            search (upstreamCalls st) (strOf dn) 10 = Inr (Some found) \<and>
            fst (findBestMatch (strOf dn) found) = Some item
            \<longrightarrow> (\<exists>r st'. getCalories toStr ttl search now dn (JNum s) st = (Inr r, st') \<and>
                         calories_per_serving r = c \<and>
                         total_calories r = Math_round_ext (Number_multiply (of_int c) s)))"
proof (intro conjI allI impI)
  let ?total = "Math_round_ext (Number_multiply (of_int c) s)"
  define r where "r = \<lparr>dish_name = description item, servings = s, calories_per_serving = c,
          total_calories = ?total, source = ''USDA FoodData Central'',
          result_ingredients = ingredients item,
          result_nutrients = (case nutrients item of None \<Rightarrow> Map.empty | Some m \<Rightarrow> m),
          searchResults = None, matchScore = None, timestamp = None\<rparr>"
  have cc: "calculateCalories item s = Inr r"
    unfolding r_def by (rule calculateCalories_ok[OF assms(1,2,3)])
  have ex: "isDouble (of_int c * s) \<longrightarrow> ?total = Finite (Math_round (of_int c * s))"
    by (simp add: isDouble_def Number_multiply_def)
  have whole: "\<forall>k. s = of_int k \<and> \<bar>c * k\<bar> \<le> 2 ^ 53 \<longrightarrow> ?total = Finite (c * k)"
  proof (intro allI impI)
    fix k
    assume k: "s = of_int k \<and> \<bar>c * k\<bar> \<le> 2 ^ 53"
    have "of_int c * s = (of_int (c * k) :: rat)"
      using k by simp
    then have "Number_multiply (of_int c) s = Finite (of_int (c * k))"
      using toDouble_of_int[of "c * k"] k by (simp add: Number_multiply_def)
    then show "?total = Finite (c * k)"
      by (simp only: Math_round_ext.simps Math_round_of_int)
  qed
  have bound: "\<forall>t. ?total = Finite t \<longrightarrow>
      \<bar>of_int t - of_int c * s\<bar> \<le> 1 / 2 + max (\<bar>of_int c * s\<bar> / 2 ^ 53) (1 / 2 ^ 1075)"
  proof (intro allI impI)
    fix t
    assume t: "?total = Finite t"
    then obtain y where y: "toDouble (of_int c * s) = Finite y" and ty: "t = Math_round y"
      by (cases "toDouble (of_int c * s)") (simp_all add: Number_multiply_def)
    have "\<bar>of_int t - of_int c * s\<bar> \<le> \<bar>of_int t - y\<bar> + \<bar>y - of_int c * s\<bar>"
      by simp
    also have "\<dots> \<le> 1 / 2 + max (\<bar>of_int c * s\<bar> / 2 ^ 53) (1 / 2 ^ 1075)"
      using Math_round_error[of y] toDouble_error[OF y] unfolding ty by (rule add_mono)
    finally show "\<bar>of_int t - of_int c * s\<bar>
        \<le> 1 / 2 + max (\<bar>of_int c * s\<bar> / 2 ^ 53) (1 / 2 ^ 1075)" .
  qed
  have tr: "total_calories r = ?total"
    by (simp add: r_def)
  have cp: "calories_per_serving r = c"
    by (simp add: r_def)
  have "calculateCalories item s = Inr r \<and> calories_per_serving r = c \<and>
      total_calories r = ?total \<and>
      (isDouble (of_int c * s) \<longrightarrow> total_calories r = Finite (Math_round (of_int c * s))) \<and>
      (\<forall>k. s = of_int k \<and> \<bar>c * k\<bar> \<le> 2 ^ 53 \<longrightarrow> total_calories r = Finite (c * k)) \<and>
      (\<forall>t. total_calories r = Finite t \<longrightarrow>
         \<bar>of_int t - of_int c * s\<bar> \<le> 1 / 2 + max (\<bar>of_int c * s\<bar> / 2 ^ 53) (1 / 2 ^ 1075))"
    unfolding tr by (intro conjI cc cp refl ex whole bound)
  then show "\<exists>r. calculateCalories item s = Inr r \<and> calories_per_serving r = c \<and>
      total_calories r = ?total \<and>
      (isDouble (of_int c * s) \<longrightarrow> total_calories r = Finite (Math_round (of_int c * s))) \<and>
      (\<forall>k. s = of_int k \<and> \<bar>c * k\<bar> \<le> 2 ^ 53 \<longrightarrow> total_calories r = Finite (c * k)) \<and>
      (\<forall>t. total_calories r = Finite t \<longrightarrow>
         \<bar>of_int t - of_int c * s\<bar> \<le> 1 / 2 + max (\<bar>of_int c * s\<bar> / 2 ^ 53) (1 / 2 ^ 1075))"
    by (rule exI)
next
  fix toStr ttl and search :: search_fn and now dn and st :: service_state and found
  assume h: "validateInput dn (JNum s) = None \<and>
            cache_get (cache st) (generateCacheKey toStr (strOf dn) s) now = None \<and>
            search (upstreamCalls st) (strOf dn) 10 = Inr (Some found) \<and>
            fst (findBestMatch (strOf dn) found) = Some item"
  show "\<exists>r st'. getCalories toStr ttl search now dn (JNum s) st = (Inr r, st') \<and>
                 calories_per_serving r = c \<and>
                 total_calories r = Math_round_ext (Number_multiply (of_int c) s)"
    using getCalories_miss_success[of dn "JNum s" st toStr now search found item c ttl] h assms(1,2)
    by (simp add: Let_def)
qed

text \<open>
  C1 at the scenario of the specification: \<open>macaroni and cheese\<close>, two servings, one
  candidate of 350 calories, which gives 700 calories in total.
\<close>

theorem calculateCalories_total_witness:
  "calories (candidateOf ''Macaroni and cheese'' (Some 350) None) = Some 350 \<and>
   (350::int) \<noteq> 0 \<and> (0::rat) < 2 \<and> (2::rat) \<le> 50 \<and>
   isDouble (of_int 350) \<and> isDouble 2 \<and> isDouble (of_int 350 * 2) \<and>
   (2::rat) = of_int 2 \<and> \<bar>350 * 2 :: int\<bar> \<le> 2 ^ 53 \<and>
   (\<exists>r. calculateCalories (candidateOf ''Macaroni and cheese'' (Some 350) None) 2 = Inr r \<and>
        calories_per_serving r = 350 \<and>
        total_calories r = Math_round_ext (Number_multiply (of_int 350) 2) \<and>
        total_calories r = Finite (Math_round (of_int 350 * 2)) \<and>
        total_calories r = Finite (350 * 2) \<and>
        total_calories r = Finite 700 \<and>
        \<bar>of_int 700 - of_int 350 * 2\<bar>
          \<le> 1 / 2 + max (\<bar>of_int 350 * 2\<bar> / 2 ^ 53) (1 / 2 ^ 1075 :: rat)) \<and>
   validateInput (JStr ''macaroni and cheese'') (JNum 2) = None \<and>
   cache_get (cache initialState)
     (generateCacheKey (\<lambda>n. ''2'') (strOf (JStr ''macaroni and cheese'')) 2) 0 = None \<and>
   constSearch [candidateOf ''Macaroni and cheese'' (Some 350) None]
     (upstreamCalls initialState) (strOf (JStr ''macaroni and cheese'')) 10 =
     Inr (Some [candidateOf ''Macaroni and cheese'' (Some 350) None]) \<and>
   fst (findBestMatch (strOf (JStr ''macaroni and cheese''))
          [candidateOf ''Macaroni and cheese'' (Some 350) None]) =
     Some (candidateOf ''Macaroni and cheese'' (Some 350) None) \<and>
   (\<exists>r st'. getCalories (\<lambda>n. ''2'') 3600
               (constSearch [candidateOf ''Macaroni and cheese'' (Some 350) None]) 0
               (JStr ''macaroni and cheese'') (JNum 2) initialState = (Inr r, st') \<and>
            calories_per_serving r = 350 \<and> total_calories r = Finite 700)"
proof -
  let ?item = "candidateOf ''Macaroni and cheese'' (Some 350) None"
  have c: "calories ?item = Some 350"
    by (simp add: candidateOf_def)
  have n: "(350::int) \<noteq> 0" and p: "(0::rat) < 2" and l: "(2::rat) \<le> 50"
    and w: "(2::rat) = of_int 2" and z: "\<bar>350 * 2 :: int\<bar> \<le> 2 ^ 53"
    by simp_all
  have d1: "isDouble (of_int 350)"
    by (rule isDouble_of_int) simp
  have d2: "isDouble 2"
    using isDouble_of_int[of 2] by simp
  have d3: "isDouble (of_int 350 * 2)"
    using isDouble_of_int[of 700] by simp
  have r: "Math_round_ext (Number_multiply (of_int 350) 2) = Finite 700"
    by (rule macaroni_total)
  have v: "validateInput (JStr ''macaroni and cheese'') (JNum 2) = None"
    by (simp add: validateInput_None_iff trim_macaroni)
  have m: "cache_get (cache initialState)
     (generateCacheKey (\<lambda>n. ''2'') (strOf (JStr ''macaroni and cheese'')) 2) 0 = None"
    by (simp add: cache_get_def initialState_def)
  have s: "constSearch [?item] (upstreamCalls initialState)
             (strOf (JStr ''macaroni and cheese'')) 10 = Inr (Some [?item])"
    by (simp add: constSearch_def)
  have b: "fst (findBestMatch (strOf (JStr ''macaroni and cheese'')) [?item]) = Some ?item"
    using findBestMatch_single_exact[of ?item "''macaroni and cheese''"]
    by (simp add: candidateOf_def lower_macaroni)
  note T = calculateCalories_total[OF c n p l d1 d2]
  from T[THEN conjunct1] obtain x where x: "calculateCalories ?item 2 = Inr x"
    "calories_per_serving x = 350"
    "total_calories x = Math_round_ext (Number_multiply (of_int 350) 2)"
    "isDouble (of_int 350 * 2) \<longrightarrow> total_calories x = Finite (Math_round (of_int 350 * 2))"
    "\<forall>k. (2::rat) = of_int k \<and> \<bar>350 * k\<bar> \<le> 2 ^ 53 \<longrightarrow> total_calories x = Finite (350 * k)"
    "\<forall>t. total_calories x = Finite t \<longrightarrow>
       \<bar>of_int t - of_int 350 * 2\<bar> \<le> 1 / 2 + max (\<bar>of_int 350 * 2\<bar> / 2 ^ 53) (1 / 2 ^ 1075 :: rat)"
    by (elim exE conjE)
  have x4: "total_calories x = Finite (Math_round (of_int 350 * 2))"
    using x(4) d3 by (rule mp)
  have x5: "total_calories x = Finite (350 * 2)"
    using x(5)[THEN spec, of 2] w z by (elim impE) (rule conjI | assumption)+
  have x7: "total_calories x = Finite 700"
    using x(3) r by (rule trans)
  have x6: "\<bar>of_int 700 - of_int 350 * 2\<bar>
      \<le> 1 / 2 + max (\<bar>of_int 350 * 2\<bar> / 2 ^ 53) (1 / 2 ^ 1075 :: rat)"
    using x(6)[THEN spec, of 700] x7 by (rule mp)
  have u: "\<exists>r. calculateCalories ?item 2 = Inr r \<and>
        calories_per_serving r = 350 \<and>
        total_calories r = Math_round_ext (Number_multiply (of_int 350) 2) \<and>
        total_calories r = Finite (Math_round (of_int 350 * 2)) \<and>
        total_calories r = Finite (350 * 2) \<and>
        total_calories r = Finite 700 \<and>
        \<bar>of_int 700 - of_int 350 * 2\<bar>
          \<le> 1 / 2 + max (\<bar>of_int 350 * 2\<bar> / 2 ^ 53) (1 / 2 ^ 1075 :: rat)"
    by (rule exI[of _ x]) (intro conjI x(1) x(2) x(3) x4 x5 x7 x6)
  have "\<exists>r st'. getCalories (\<lambda>n. ''2'') 3600 (constSearch [?item]) 0
               (JStr ''macaroni and cheese'') (JNum 2) initialState = (Inr r, st') \<and>
            calories_per_serving r = 350 \<and>
            total_calories r = Math_round_ext (Number_multiply (of_int 350) 2)"
    using T[THEN conjunct2] v m s b by blast
  then have g: "\<exists>r st'. getCalories (\<lambda>n. ''2'') 3600 (constSearch [?item]) 0
               (JStr ''macaroni and cheese'') (JNum 2) initialState = (Inr r, st') \<and>
            calories_per_serving r = 350 \<and> total_calories r = Finite 700"
    by (simp only: r)
  show ?thesis
    by (intro conjI) (rule c n p l d1 d2 d3 w z u v m s b g)+
qed

lemma handleError_notFound:
  "handleError (Error NotFoundError ''Dish not found'') =
     ServiceError NotFoundError ''Sorry, we could not find that dish in our database''
       ''Dish not found'' ''FoodService''"
  by (simp add: handleError_def errorMappings_def)

lemma handleError_unavailable:
  "handleError notFoundUnavailable =
     ServiceError NotFoundError ''Dish not found or calorie information unavailable''
       ''Dish not found or calorie information unavailable'' ''FoodService''"
  by (simp add: handleError_def errorMappings_def notFoundUnavailable_def)

lemma handleError_kind: "skind (handleError e) = kind e"
  by (simp add: handleError_def Let_def)

lemma handleError_original: "originalError (handleError e) = message e"
  by (simp add: handleError_def Let_def)

lemma getCalories_miss_provider_error:
  assumes "validateInput dn sv = None"
    and "cache_get (cache st) (generateCacheKey toStr (strOf dn) (numOf sv)) now = None"
    and "search (upstreamCalls st) (strOf dn) 10 = Inl msg"
  shows "getCalories toStr ttl search now dn sv st =
     (Inl (handleError (Error ProviderError msg)), st\<lparr>upstreamCalls := upstreamCalls st + 1\<rparr>)"
  using assms by (simp add: getCalories_def Let_def)

lemma getCalories_miss_empty:
  assumes "validateInput dn sv = None"
    and "cache_get (cache st) (generateCacheKey toStr (strOf dn) (numOf sv)) now = None"
    and "search (upstreamCalls st) (strOf dn) 10 = Inr None \<or>
         search (upstreamCalls st) (strOf dn) 10 = Inr (Some [])"
  shows "getCalories toStr ttl search now dn sv st =
     (Inl (handleError (Error NotFoundError ''Dish not found'')),
      st\<lparr>upstreamCalls := upstreamCalls st + 1\<rparr>)"
  using assms by (auto simp add: getCalories_def Let_def)

lemma getCalories_miss_falsy:
  assumes "validateInput dn sv = None"
    and "cache_get (cache st) (generateCacheKey toStr (strOf dn) (numOf sv)) now = None"
    and "search (upstreamCalls st) (strOf dn) 10 = Inr (Some found)"
    and "fst (findBestMatch (strOf dn) found) = Some bm"
    and "\<not> truthyInt (calories bm)"
  shows "getCalories toStr ttl search now dn sv st =
     (Inl (handleError notFoundUnavailable), st\<lparr>upstreamCalls := upstreamCalls st + 1\<rparr>)"
proof -
  have ne: "found \<noteq> []"
    using assms(4) by (auto simp: findBestMatch_Nil)
  show ?thesis
    using assms ne by (simp add: getCalories_def Let_def)
qed

lemma findBestMatch_Some:
  "found \<noteq> [] \<Longrightarrow> \<exists>bm. fst (findBestMatch d found) = Some bm"
  by (cases found) (auto simp: findBestMatch_def Let_def split: option.splits)

lemma truthyInt_iff: "truthyInt c \<longleftrightarrow> (\<exists>n. c = Some n \<and> n \<noteq> 0)"
  by (cases c) auto

lemma findBestMatch_single_fallback:
  assumes "\<not> truthyInt (calories item)" and "energyOf item = None"
  shows "findBestMatch d [item] = (Some item, [item])"
  using assms
  by (simp add: findBestMatch_def hasCalories_def hasEnergyNutrient_def setCaloriesFromEnergy_def)

lemma lower_apple: "toLowerCase ''apple'' = ''apple''"
  by code_simp

lemma trim_apple: "trim ''apple'' = ''apple''"
  by (simp add: trim_def isWhiteSpace_def)

lemma valid_apple: "validateInput (JStr ''apple'') (JNum 1) = None"
  by (simp add: validateInput_None_iff trim_apple)

lemma valid_macaroni: "validateInput (JStr ''macaroni and cheese'') (JNum 2) = None"
  by (simp add: validateInput_None_iff trim_macaroni)

lemma key_macaroni:
  "generateCacheKey (\<lambda>n. ''2'') ''macaroni and cheese'' 2 = ''calories_macaroni and cheese_2''"
  by (simp add: generateCacheKey_def lower_macaroni trim_macaroni)


lemma best_macaroni:
  "fst (findBestMatch ''macaroni and cheese'' [candidateOf ''Macaroni and cheese'' (Some 350) None]) =
     Some (candidateOf ''Macaroni and cheese'' (Some 350) None)"
  using findBestMatch_single_exact[of "candidateOf ''Macaroni and cheese'' (Some 350) None"
      "''macaroni and cheese''"]
  by (simp add: candidateOf_def lower_macaroni)

lemma best_apple:
  "fst (findBestMatch ''apple'' [candidateOf ''apple'' c None]) = Some (candidateOf ''apple'' c None)"
  if "\<not> truthyInt c"
  using findBestMatch_single_fallback[of "candidateOf ''apple'' c None" "''apple''"] that
  by (simp add: candidateOf_def energyOf_def)

lemma macaroni_first_call:
  "getCalories (\<lambda>n. ''2'') 3600 (constSearch [candidateOf ''Macaroni and cheese'' (Some 350) None]) 0
     (JStr ''macaroni and cheese'') (JNum 2) initialState = (Inr macaroniResult, macaroniState)"
proof -
  have m: "cache_get (cache initialState)
     (generateCacheKey (\<lambda>n. ''2'') (strOf (JStr ''macaroni and cheese'')) (numOf (JNum 2))) 0 = None"
    by (simp add: cache_get_def initialState_def)
  have r: "Math_round_ext (Number_multiply (of_int 350) 2) = Finite 700"
    by (rule macaroni_total)
  show ?thesis
    using getCalories_miss_success[where dn = "JStr ''macaroni and cheese''" and sv = "JNum 2"
        and st = initialState and toStr = "\<lambda>n. ''2''" and now = 0 and ttl = 3600
        and search = "constSearch [candidateOf ''Macaroni and cheese'' (Some 350) None]"
        and found = "[candidateOf ''Macaroni and cheese'' (Some 350) None]"
        and bm = "candidateOf ''Macaroni and cheese'' (Some 350) None" and c = 350]
      valid_macaroni m best_macaroni r
    by (simp add: constSearch_def key_macaroni macaroniResult_def macaroniState_def
        initialState_def candidateOf_def cache_set_def Let_def)
qed

lemma macaroni_cached:
  "now \<le> 3600000 \<Longrightarrow>
   cache_get (cache macaroniState) ''calories_macaroni and cheese_2'' now = Some macaroniResult"
  by (simp add: cache_get_def macaroniState_def)

section \<open>A calorie value of zero\<close>

text \<open>
  Claim C10: whenever \<open>getCalories\<close> misses the cache and the best match of the search
  result has the calorie value \<open>0\<close>, it fails with the not-found error
  \<open>Dish not found or calorie information unavailable\<close> and writes nothing to the cache;
  \<open>calculateCalories\<close> refuses that candidate too, for every servings count, as it refuses
  the candidate without a calorie value; and \<open>getCalories\<close> gives the same outcome as for
  a best match without a calorie value.
\<close>

theorem zero_calories_not_found:
  assumes "validateInput dn sv = None"
    and "cache_get (cache st) (generateCacheKey toStr (strOf dn) (numOf sv)) now = None"
    and "search (upstreamCalls st) (strOf dn) 10 = Inr (Some found)"
    and "fst (findBestMatch (strOf dn) found) = Some bm"
    and "calories bm = Some 0"
  shows "getCalories toStr ttl search now dn sv st =
           (Inl (ServiceError NotFoundError
                   ''Dish not found or calorie information unavailable''
                   ''Dish not found or calorie information unavailable'' ''FoodService''),
            st\<lparr>upstreamCalls := upstreamCalls st + 1\<rparr>) \<and>
         calculateCalories bm s =
           Inl (Error InvalidInput ''Invalid food item or missing calorie data'') \<and>
         calculateCalories (bm\<lparr>calories := None\<rparr>) s = calculateCalories bm s \<and>
         (\<forall>search' found' bm'.
            search' (upstreamCalls st) (strOf dn) 10 = Inr (Some found') \<and>
            fst (findBestMatch (strOf dn) found') = Some bm' \<and> calories bm' = None
            \<longrightarrow> getCalories toStr ttl search' now dn sv st =
                 getCalories toStr ttl search now dn sv st)"
proof -
  have f: "\<not> truthyInt (calories bm)"
    using assms(5) by simp
  have g: "getCalories toStr ttl search now dn sv st =
     (Inl (handleError notFoundUnavailable), st\<lparr>upstreamCalls := upstreamCalls st + 1\<rparr>)"
    using getCalories_miss_falsy[where search = search and found = found and bm = bm] assms(1-4) f
    by blast
  have h: "getCalories toStr ttl search' now dn sv st =
     (Inl (handleError notFoundUnavailable), st\<lparr>upstreamCalls := upstreamCalls st + 1\<rparr>)"
    if "search' (upstreamCalls st) (strOf dn) 10 = Inr (Some found')"
      and "fst (findBestMatch (strOf dn) found') = Some bm'" and "calories bm' = None"
    for search' :: search_fn and found' bm'
    using getCalories_miss_falsy[where search = search' and found = found' and bm = bm']
      assms(1,2) that
    by simp
  have c: "calculateCalories bm s =
     Inl (Error InvalidInput ''Invalid food item or missing calorie data'')"
    by (rule calculateCalories_falsy[OF f])
  have c': "calculateCalories (bm\<lparr>calories := None\<rparr>) s =
     Inl (Error InvalidInput ''Invalid food item or missing calorie data'')"
    by (rule calculateCalories_falsy) simp
  show ?thesis
    using g h c c' by (simp add: handleError_unavailable)
qed

text \<open>
  C10 at a search for \<open>apple\<close> whose only candidate has the calorie value \<open>0\<close>, beside the
  same search with a candidate that has no calorie value.
\<close>

theorem zero_calories_not_found_witness:
  "validateInput (JStr ''apple'') (JNum 1) = None \<and>
   cache_get (cache initialState)
     (generateCacheKey (\<lambda>n. ''1'') (strOf (JStr ''apple'')) (numOf (JNum 1))) 0 = None \<and>
   constSearch [candidateOf ''apple'' (Some 0) None] (upstreamCalls initialState)
     (strOf (JStr ''apple'')) 10 = Inr (Some [candidateOf ''apple'' (Some 0) None]) \<and>
   fst (findBestMatch (strOf (JStr ''apple'')) [candidateOf ''apple'' (Some 0) None]) =
     Some (candidateOf ''apple'' (Some 0) None) \<and>
   calories (candidateOf ''apple'' (Some 0) None) = Some 0 \<and>
   getCalories (\<lambda>n. ''1'') 3600 (constSearch [candidateOf ''apple'' (Some 0) None]) 0
     (JStr ''apple'') (JNum 1) initialState =
     (Inl (ServiceError NotFoundError
             ''Dish not found or calorie information unavailable''
             ''Dish not found or calorie information unavailable'' ''FoodService''),
      initialState\<lparr>upstreamCalls := upstreamCalls initialState + 1\<rparr>) \<and>
   calculateCalories (candidateOf ''apple'' (Some 0) None) 1 =
     Inl (Error InvalidInput ''Invalid food item or missing calorie data'') \<and>
   constSearch [candidateOf ''apple'' None None] (upstreamCalls initialState)
     (strOf (JStr ''apple'')) 10 = Inr (Some [candidateOf ''apple'' None None]) \<and>
   fst (findBestMatch (strOf (JStr ''apple'')) [candidateOf ''apple'' None None]) =
     Some (candidateOf ''apple'' None None) \<and>
   calories (candidateOf ''apple'' None None) = None \<and>
   getCalories (\<lambda>n. ''1'') 3600 (constSearch [candidateOf ''apple'' None None]) 0
     (JStr ''apple'') (JNum 1) initialState =
   getCalories (\<lambda>n. ''1'') 3600 (constSearch [candidateOf ''apple'' (Some 0) None]) 0
     (JStr ''apple'') (JNum 1) initialState"
proof -
  let ?a0 = "candidateOf ''apple'' (Some 0) None"
  let ?an = "candidateOf ''apple'' None None"
  have m: "cache_get (cache initialState)
     (generateCacheKey (\<lambda>n. ''1'') (strOf (JStr ''apple'')) (numOf (JNum 1))) 0 = None"
    by (simp add: cache_get_def initialState_def)
  have s0: "constSearch [?a0] (upstreamCalls initialState) (strOf (JStr ''apple'')) 10 =
      Inr (Some [?a0])"
   and sn: "constSearch [?an] (upstreamCalls initialState) (strOf (JStr ''apple'')) 10 =
      Inr (Some [?an])"
    by (simp_all add: constSearch_def)
  have b0: "fst (findBestMatch (strOf (JStr ''apple'')) [?a0]) = Some ?a0"
   and bn: "fst (findBestMatch (strOf (JStr ''apple'')) [?an]) = Some ?an"
    by (simp_all add: best_apple)
  have c0: "calories ?a0 = Some 0" and cn: "calories ?an = None"
    by (simp_all add: candidateOf_def)
  note t = zero_calories_not_found[where dn = "JStr ''apple''" and sv = "JNum 1"
      and st = initialState and toStr = "\<lambda>n. ''1''" and now = 0 and ttl = 3600 and s = 1
      and search = "constSearch [?a0]" and found = "[?a0]" and bm = ?a0,
      OF valid_apple m s0 b0 c0]
  from t have t1: "getCalories (\<lambda>n. ''1'') 3600 (constSearch [?a0]) 0
     (JStr ''apple'') (JNum 1) initialState =
     (Inl (ServiceError NotFoundError
             ''Dish not found or calorie information unavailable''
             ''Dish not found or calorie information unavailable'' ''FoodService''),
      initialState\<lparr>upstreamCalls := upstreamCalls initialState + 1\<rparr>)"
    by blast
  from t have t2: "calculateCalories ?a0 1 =
     Inl (Error InvalidInput ''Invalid food item or missing calorie data'')"
    by blast
  from t have t4: "\<forall>search' found' bm'.
            search' (upstreamCalls initialState) (strOf (JStr ''apple'')) 10 = Inr (Some found') \<and>
            fst (findBestMatch (strOf (JStr ''apple'')) found') = Some bm' \<and> calories bm' = None
            \<longrightarrow> getCalories (\<lambda>n. ''1'') 3600 search' 0 (JStr ''apple'') (JNum 1) initialState =
                 getCalories (\<lambda>n. ''1'') 3600 (constSearch [?a0]) 0 (JStr ''apple'') (JNum 1)
                   initialState"
    by blast
  have t5: "getCalories (\<lambda>n. ''1'') 3600 (constSearch [?an]) 0
     (JStr ''apple'') (JNum 1) initialState =
   getCalories (\<lambda>n. ''1'') 3600 (constSearch [?a0]) 0
     (JStr ''apple'') (JNum 1) initialState"
    using t4 sn bn cn by blast
  show ?thesis
    using valid_apple m s0 b0 c0 t1 t2 sn bn cn t5 by blast
qed

lemma macaroni_second_call:
  "now \<le> 3600000 \<Longrightarrow>
   getCalories (\<lambda>n. ''2'') ttl search now (JStr ''macaroni and cheese'') (JNum 2) macaroniState =
     (Inr macaroniResult, macaroniState)"
  using getCalories_hit[where dn = "JStr ''macaroni and cheese''" and sv = "JNum 2"
      and st = macaroniState and toStr = "\<lambda>n. ''2''" and now = now and r = macaroniResult]
    valid_macaroni macaroni_cached[of now]
  by (simp add: key_macaroni)

lemma apple_empty_call:
  "getCalories (\<lambda>n. ''1'') ttl (constSearch []) now (JStr ''apple'') (JNum 1)
     \<lparr>cache = Map.empty, upstreamCalls = k, cacheWrites = 0\<rparr> =
     (Inl (ServiceError NotFoundError ''Sorry, we could not find that dish in our database''
             ''Dish not found'' ''FoodService''),
      \<lparr>cache = Map.empty, upstreamCalls = k + 1, cacheWrites = 0\<rparr>)"
  using getCalories_miss_empty[where dn = "JStr ''apple''" and sv = "JNum 1"
      and st = "\<lparr>cache = Map.empty, upstreamCalls = k, cacheWrites = 0\<rparr>"
      and toStr = "\<lambda>n. ''1''" and now = now and search = "constSearch []" and ttl = ttl]
    valid_apple
  by (simp add: cache_get_def constSearch_def handleError_notFound)

lemma miss_initial: "cache_get (cache initialState) key now = None"
  by (simp add: cache_get_def initialState_def)




section \<open>Cache writes\<close>

text \<open>
  Claim C8, as the code has it. A call that succeeds on a cache hit writes nothing: in the
  state the first call for \<open>macaroni and cheese\<close> leaves behind, the same call one second
  later returns the cached result, and the write counter and the cache are as before.
\<close>

theorem cache_hit_writes_nothing:
  "fst (getCalories (\<lambda>n. ''2'') 3600 (constSearch []) 1000
          (JStr ''macaroni and cheese'') (JNum 2) macaroniState) = Inr macaroniResult \<and>
   cacheWrites (snd (getCalories (\<lambda>n. ''2'') 3600 (constSearch []) 1000
          (JStr ''macaroni and cheese'') (JNum 2) macaroniState)) = cacheWrites macaroniState \<and>
   cache (snd (getCalories (\<lambda>n. ''2'') 3600 (constSearch []) 1000
          (JStr ''macaroni and cheese'') (JNum 2) macaroniState)) = cache macaroniState"
  using macaroni_second_call[of 1000 3600 "constSearch []"] by simp

text \<open>
  Claim C8, amended: a call of \<open>getCalories\<close> that fails (validation, not found or
  provider error) writes nothing and leaves the cache as it was; a call that succeeds after
  a cache miss makes exactly one cache write, of the result it returns, under the cache
  key; a call that succeeds on a cache hit writes nothing and changes nothing.
\<close>

theorem cache_write_only_on_success:
  assumes "getCalories toStr ttl search now dn sv st = (res, st')"
  shows "(\<forall>e. res = Inl e \<longrightarrow> cache st' = cache st \<and> cacheWrites st' = cacheWrites st) \<and>
         (\<forall>r. res = Inr r \<and>
              cache_get (cache st) (generateCacheKey toStr (strOf dn) (numOf sv)) now = None
              \<longrightarrow> cacheWrites st' = cacheWrites st + 1 \<and>
                  cache st' = cache_set (cache st)
                                (generateCacheKey toStr (strOf dn) (numOf sv)) r ttl now) \<and>
         (\<forall>r. res = Inr r \<and>
              cache_get (cache st) (generateCacheKey toStr (strOf dn) (numOf sv)) now \<noteq> None
              \<longrightarrow> st' = st \<and>
                  cache_get (cache st) (generateCacheKey toStr (strOf dn) (numOf sv)) now = Some r)"
  using assms
  by (auto simp: getCalories_def Let_def split: option.splits sum.splits if_splits)

text \<open>
  The three cases of C8 at concrete calls: a search that finds nothing, the first call for
  \<open>macaroni and cheese\<close>, and the same call again one second later.
\<close>

theorem cache_write_only_on_success_witness:
  "getCalories (\<lambda>n. ''1'') 3600 (constSearch []) 0 (JStr ''apple'') (JNum 1) initialState =
     (Inl (ServiceError NotFoundError ''Sorry, we could not find that dish in our database''
             ''Dish not found'' ''FoodService''),
      \<lparr>cache = Map.empty, upstreamCalls = 1, cacheWrites = 0\<rparr>) \<and>
   cache \<lparr>cache = Map.empty, upstreamCalls = 1, cacheWrites = 0\<rparr> = cache initialState \<and>
   cacheWrites \<lparr>cache = Map.empty, upstreamCalls = 1, cacheWrites = 0\<rparr> = cacheWrites initialState \<and>
   getCalories (\<lambda>n. ''2'') 3600 (constSearch [candidateOf ''Macaroni and cheese'' (Some 350) None]) 0
     (JStr ''macaroni and cheese'') (JNum 2) initialState = (Inr macaroniResult, macaroniState) \<and>
   cache_get (cache initialState)
     (generateCacheKey (\<lambda>n. ''2'') (strOf (JStr ''macaroni and cheese'')) (numOf (JNum 2))) 0 = None \<and>
   cacheWrites macaroniState = cacheWrites initialState + 1 \<and>
   cache macaroniState =
     cache_set (cache initialState)
       (generateCacheKey (\<lambda>n. ''2'') (strOf (JStr ''macaroni and cheese'')) (numOf (JNum 2)))
       macaroniResult 3600 0 \<and>
   getCalories (\<lambda>n. ''2'') 3600 (constSearch []) 1000
     (JStr ''macaroni and cheese'') (JNum 2) macaroniState = (Inr macaroniResult, macaroniState) \<and>
   cache_get (cache macaroniState)
     (generateCacheKey (\<lambda>n. ''2'') (strOf (JStr ''macaroni and cheese'')) (numOf (JNum 2))) 1000 =
     Some macaroniResult"
proof -
  have a: "getCalories (\<lambda>n. ''1'') 3600 (constSearch []) 0 (JStr ''apple'') (JNum 1) initialState =
     (Inl (ServiceError NotFoundError ''Sorry, we could not find that dish in our database''
             ''Dish not found'' ''FoodService''),
      \<lparr>cache = Map.empty, upstreamCalls = 1, cacheWrites = 0\<rparr>)"
    using apple_empty_call[of 3600 0 0] by (simp add: initialState_def)
  have m: "cache_get (cache initialState)
     (generateCacheKey (\<lambda>n. ''2'') (strOf (JStr ''macaroni and cheese'')) (numOf (JNum 2))) 0 = None"
    by (simp add: cache_get_def initialState_def)
  have h: "cache_get (cache macaroniState)
     (generateCacheKey (\<lambda>n. ''2'') (strOf (JStr ''macaroni and cheese'')) (numOf (JNum 2))) 1000 \<noteq> None"
    by (simp add: key_macaroni macaroni_cached)
  note b = macaroni_second_call[of 1000 3600 "constSearch []"]
  have 1: "cache \<lparr>cache = Map.empty, upstreamCalls = 1, cacheWrites = 0\<rparr> = cache initialState \<and>
     cacheWrites \<lparr>cache = Map.empty, upstreamCalls = 1, cacheWrites = 0\<rparr> = cacheWrites initialState"
    using cache_write_only_on_success[OF a] by blast
  have 2: "cacheWrites macaroniState = cacheWrites initialState + 1 \<and>
     cache macaroniState =
       cache_set (cache initialState)
         (generateCacheKey (\<lambda>n. ''2'') (strOf (JStr ''macaroni and cheese'')) (numOf (JNum 2)))
         macaroniResult 3600 0"
    using cache_write_only_on_success[OF macaroni_first_call] m by blast
  have 3: "cache_get (cache macaroniState)
     (generateCacheKey (\<lambda>n. ''2'') (strOf (JStr ''macaroni and cheese'')) (numOf (JNum 2))) 1000 =
     Some macaroniResult"
    using cache_write_only_on_success[OF b] h by simp
  show ?thesis
    using a 1 macaroni_first_call m 2 b 3 by simp
qed

section \<open>Outcomes of a cache miss\<close>

text \<open>
  Claim C5, as the code has it. A search result that is not empty and whose selected
  candidate has a resolved calorie value, the value \<open>0\<close>, still ends in the not-found
  error, and a search that the provider fails ends in the provider's error: not every
  other case produces a result.
\<close>

theorem zero_calorie_match_rejected:
  "validateInput (JStr ''apple'') (JNum 1) = None \<and>
   cache_get (cache initialState)
     (generateCacheKey (\<lambda>n. ''1'') (strOf (JStr ''apple'')) (numOf (JNum 1))) 0 = None \<and>
   constSearch [candidateOf ''apple'' (Some 0) None] (upstreamCalls initialState)
     (strOf (JStr ''apple'')) 10 = Inr (Some [candidateOf ''apple'' (Some 0) None]) \<and>
   [candidateOf ''apple'' (Some 0) None] \<noteq> [] \<and>
   fst (findBestMatch (strOf (JStr ''apple'')) [candidateOf ''apple'' (Some 0) None]) =
     Some (candidateOf ''apple'' (Some 0) None) \<and>
   calories (candidateOf ''apple'' (Some 0) None) \<noteq> None \<and>
   fst (getCalories (\<lambda>n. ''1'') 3600 (constSearch [candidateOf ''apple'' (Some 0) None]) 0
         (JStr ''apple'') (JNum 1) initialState) =
     Inl (ServiceError NotFoundError
            ''Dish not found or calorie information unavailable''
            ''Dish not found or calorie information unavailable'' ''FoodService'') \<and>
   failSearch ''USDA API rate limit exceeded'' (upstreamCalls initialState)
     (strOf (JStr ''apple'')) 10 = Inl ''USDA API rate limit exceeded'' \<and>
   fst (getCalories (\<lambda>n. ''1'') 3600 (failSearch ''USDA API rate limit exceeded'') 0
         (JStr ''apple'') (JNum 1) initialState) =
     Inl (ServiceError ProviderError
            ''Service temporarily busy, please try again in a few minutes''
            ''USDA API rate limit exceeded'' ''FoodService'')"
proof -
  let ?a0 = "candidateOf ''apple'' (Some 0) None"
  have f: "failSearch ''USDA API rate limit exceeded'' (upstreamCalls initialState)
     (strOf (JStr ''apple'')) 10 = Inl ''USDA API rate limit exceeded''"
    by (simp add: failSearch_def)
  have p: "fst (getCalories (\<lambda>n. ''1'') 3600 (failSearch ''USDA API rate limit exceeded'') 0
         (JStr ''apple'') (JNum 1) initialState) =
     Inl (ServiceError ProviderError
            ''Service temporarily busy, please try again in a few minutes''
            ''USDA API rate limit exceeded'' ''FoodService'')"
    using getCalories_miss_provider_error[where search = "failSearch ''USDA API rate limit exceeded''"
        and msg = "''USDA API rate limit exceeded''" and toStr = "\<lambda>n. ''1''" and now = 0
        and ttl = 3600, OF valid_apple miss_initial f]
    by (simp add: handleError_def errorMappings_def)
  have s: "constSearch [?a0] (upstreamCalls initialState) (strOf (JStr ''apple'')) 10 =
      Inr (Some [?a0])"
    by (simp add: constSearch_def)
  have b: "fst (findBestMatch (strOf (JStr ''apple'')) [?a0]) = Some ?a0"
    by (simp add: best_apple)
  have c: "calories ?a0 = Some 0"
    by (simp add: candidateOf_def)
  have g: "fst (getCalories (\<lambda>n. ''1'') 3600 (constSearch [?a0]) 0
         (JStr ''apple'') (JNum 1) initialState) = Inl (handleError notFoundUnavailable)"
    using getCalories_miss_falsy[where search = "constSearch [?a0]" and found = "[?a0]"
        and bm = ?a0 and toStr = "\<lambda>n. ''1''" and now = 0 and ttl = 3600,
        OF valid_apple miss_initial s b] c
    by simp
  show ?thesis
    using valid_apple miss_initial s b c g f p by (simp add: handleError_unavailable)
qed

text \<open>
  Claim C5, amended: on a cache miss with valid input, \<open>getCalories\<close> fails with the
  not-found error \<open>Dish not found\<close> when the search returns no list or an empty list; it
  fails with the not-found error \<open>Dish not found or calorie information unavailable\<close>
  when the selected candidate has no calorie value or the calorie value \<open>0\<close>; it fails
  with the provider's error when the search throws; and in every other case it produces a
  result.
\<close>

theorem getCalories_miss_outcomes:
  assumes v: "validateInput dn sv = None"
    and m: "cache_get (cache st) (generateCacheKey toStr (strOf dn) (numOf sv)) now = None"
  shows
    "(search (upstreamCalls st) (strOf dn) 10 = Inr None \<or>
      search (upstreamCalls st) (strOf dn) 10 = Inr (Some [])
      \<longrightarrow> fst (getCalories toStr ttl search now dn sv st) =
            Inl (ServiceError NotFoundError
                   ''Sorry, we could not find that dish in our database''
                   ''Dish not found'' ''FoodService'')) \<and>
     (\<forall>found bm.
        search (upstreamCalls st) (strOf dn) 10 = Inr (Some found) \<and>
        fst (findBestMatch (strOf dn) found) = Some bm \<and>
        (calories bm = None \<or> calories bm = Some 0)
        \<longrightarrow> fst (getCalories toStr ttl search now dn sv st) =
              Inl (ServiceError NotFoundError
                     ''Dish not found or calorie information unavailable''
                     ''Dish not found or calorie information unavailable'' ''FoodService'')) \<and>
     (\<forall>msg.
        search (upstreamCalls st) (strOf dn) 10 = Inl msg
        \<longrightarrow> fst (getCalories toStr ttl search now dn sv st) =
              Inl (handleError (Error ProviderError msg)) \<and>
            skind (handleError (Error ProviderError msg)) = ProviderError \<and>
            originalError (handleError (Error ProviderError msg)) = msg) \<and>
     (search (upstreamCalls st) (strOf dn) 10 \<noteq> Inr None \<and>
      search (upstreamCalls st) (strOf dn) 10 \<noteq> Inr (Some []) \<and>
      (\<forall>msg. search (upstreamCalls st) (strOf dn) 10 \<noteq> Inl msg) \<and>
      (\<forall>found bm.
         search (upstreamCalls st) (strOf dn) 10 = Inr (Some found) \<and>
         fst (findBestMatch (strOf dn) found) = Some bm
         \<longrightarrow> calories bm \<noteq> None \<and> calories bm \<noteq> Some 0)
      \<longrightarrow> (\<exists>r. fst (getCalories toStr ttl search now dn sv st) = Inr r))"
proof (intro conjI allI impI)
  assume "search (upstreamCalls st) (strOf dn) 10 = Inr None \<or>
          search (upstreamCalls st) (strOf dn) 10 = Inr (Some [])"
  then show "fst (getCalories toStr ttl search now dn sv st) =
            Inl (ServiceError NotFoundError
                   ''Sorry, we could not find that dish in our database''
                   ''Dish not found'' ''FoodService'')"
    using getCalories_miss_empty[where search = search, OF v m]
    by (simp add: handleError_notFound)
next
  fix found bm
  assume h: "search (upstreamCalls st) (strOf dn) 10 = Inr (Some found) \<and>
        fst (findBestMatch (strOf dn) found) = Some bm \<and>
        (calories bm = None \<or> calories bm = Some 0)"
  then have "\<not> truthyInt (calories bm)"
    by auto
  then show "fst (getCalories toStr ttl search now dn sv st) =
              Inl (ServiceError NotFoundError
                     ''Dish not found or calorie information unavailable''
                     ''Dish not found or calorie information unavailable'' ''FoodService'')"
    using getCalories_miss_falsy[where search = search and found = found and bm = bm, OF v m] h
    by (simp add: handleError_unavailable)
next
  fix msg
  assume "search (upstreamCalls st) (strOf dn) 10 = Inl msg"
  then show "fst (getCalories toStr ttl search now dn sv st) =
      Inl (handleError (Error ProviderError msg))"
    using getCalories_miss_provider_error[where search = search and msg = msg, OF v m]
    by simp
next
  fix msg
  show "skind (handleError (Error ProviderError msg)) = ProviderError"
    by (simp add: handleError_kind)
next
  fix msg
  show "originalError (handleError (Error ProviderError msg)) = msg"
    by (simp add: handleError_original)
next
  assume h: "search (upstreamCalls st) (strOf dn) 10 \<noteq> Inr None \<and>
      search (upstreamCalls st) (strOf dn) 10 \<noteq> Inr (Some []) \<and>
      (\<forall>msg. search (upstreamCalls st) (strOf dn) 10 \<noteq> Inl msg) \<and>
      (\<forall>found bm.
         search (upstreamCalls st) (strOf dn) 10 = Inr (Some found) \<and>
         fst (findBestMatch (strOf dn) found) = Some bm
         \<longrightarrow> calories bm \<noteq> None \<and> calories bm \<noteq> Some 0)"
  then obtain found where f: "search (upstreamCalls st) (strOf dn) 10 = Inr (Some found)"
    and ne: "found \<noteq> []"
    by (cases "search (upstreamCalls st) (strOf dn) 10") auto
  from findBestMatch_Some[OF ne] obtain bm where
    b: "fst (findBestMatch (strOf dn) found) = Some bm"
    by blast
  with h f obtain c where c: "calories bm = Some c" "c \<noteq> 0"
    by (cases "calories bm") auto
  show "\<exists>r. fst (getCalories toStr ttl search now dn sv st) = Inr r"
    using getCalories_miss_success[where search = search and found = found and bm = bm
        and c = c, OF v m f b c]
    by (simp add: Let_def)
qed

text \<open>
  The four cases of C5 at concrete calls: an empty search result, a best match without a
  calorie value, a provider that is rate limited, and the search result of the
  \<open>macaroni and cheese\<close> scenario.
\<close>

theorem getCalories_miss_outcomes_witness:
  "validateInput (JStr ''apple'') (JNum 1) = None \<and>
   validateInput (JStr ''macaroni and cheese'') (JNum 2) = None \<and>
   constSearch [] (upstreamCalls initialState) (strOf (JStr ''apple'')) 10 = Inr (Some []) \<and>
   fst (getCalories (\<lambda>n. ''1'') 3600 (constSearch []) 0 (JStr ''apple'') (JNum 1) initialState) =
     Inl (ServiceError NotFoundError ''Sorry, we could not find that dish in our database''
            ''Dish not found'' ''FoodService'') \<and>
   fst (findBestMatch (strOf (JStr ''apple'')) [candidateOf ''apple'' None None]) =
     Some (candidateOf ''apple'' None None) \<and>
   calories (candidateOf ''apple'' None None) = None \<and>
   fst (getCalories (\<lambda>n. ''1'') 3600 (constSearch [candidateOf ''apple'' None None]) 0
         (JStr ''apple'') (JNum 1) initialState) =
     Inl (ServiceError NotFoundError
            ''Dish not found or calorie information unavailable''
            ''Dish not found or calorie information unavailable'' ''FoodService'') \<and>
   failSearch ''USDA API rate limit exceeded'' (upstreamCalls initialState)
     (strOf (JStr ''apple'')) 10 = Inl ''USDA API rate limit exceeded'' \<and>
   fst (getCalories (\<lambda>n. ''1'') 3600 (failSearch ''USDA API rate limit exceeded'') 0
         (JStr ''apple'') (JNum 1) initialState) =
     Inl (ServiceError ProviderError
            ''Service temporarily busy, please try again in a few minutes''
            ''USDA API rate limit exceeded'' ''FoodService'') \<and>
   fst (findBestMatch (strOf (JStr ''macaroni and cheese''))
          [candidateOf ''Macaroni and cheese'' (Some 350) None]) =
     Some (candidateOf ''Macaroni and cheese'' (Some 350) None) \<and>
   calories (candidateOf ''Macaroni and cheese'' (Some 350) None) = Some 350 \<and>
   (\<exists>r. fst (getCalories (\<lambda>n. ''2'') 3600
               (constSearch [candidateOf ''Macaroni and cheese'' (Some 350) None]) 0
               (JStr ''macaroni and cheese'') (JNum 2) initialState) = Inr r)"
proof -
  let ?an = "candidateOf ''apple'' None None"
  let ?mac = "candidateOf ''Macaroni and cheese'' (Some 350) None"
  let ?busy = "''USDA API rate limit exceeded''"
  note t = getCalories_miss_outcomes[where st = initialState and now = 0 and ttl = 3600,
      OF _ miss_initial]
  have e: "constSearch [] (upstreamCalls initialState) (strOf (JStr ''apple'')) 10 = Inr (Some [])"
    by (simp add: constSearch_def)
  have 1: "fst (getCalories (\<lambda>n. ''1'') 3600 (constSearch []) 0 (JStr ''apple'') (JNum 1)
                 initialState) =
     Inl (ServiceError NotFoundError ''Sorry, we could not find that dish in our database''
            ''Dish not found'' ''FoodService'')"
    using t[where search = "constSearch []" and toStr = "\<lambda>n. ''1''", OF valid_apple] e
    by blast
  have sn: "constSearch [?an] (upstreamCalls initialState) (strOf (JStr ''apple'')) 10 =
      Inr (Some [?an])"
    by (simp add: constSearch_def)
  have bn: "fst (findBestMatch (strOf (JStr ''apple'')) [?an]) = Some ?an"
    by (simp add: best_apple)
  have cn: "calories ?an = None"
    by (simp add: candidateOf_def)
  have 2: "fst (getCalories (\<lambda>n. ''1'') 3600 (constSearch [?an]) 0
         (JStr ''apple'') (JNum 1) initialState) =
     Inl (ServiceError NotFoundError
            ''Dish not found or calorie information unavailable''
            ''Dish not found or calorie information unavailable'' ''FoodService'')"
    using t[where search = "constSearch [?an]" and toStr = "\<lambda>n. ''1''", OF valid_apple]
      sn bn cn
    by blast
  have f: "failSearch ?busy (upstreamCalls initialState) (strOf (JStr ''apple'')) 10 = Inl ?busy"
    by (simp add: failSearch_def)
  have "fst (getCalories (\<lambda>n. ''1'') 3600 (failSearch ?busy) 0
         (JStr ''apple'') (JNum 1) initialState) = Inl (handleError (Error ProviderError ?busy))"
    using t[where search = "failSearch ?busy" and toStr = "\<lambda>n. ''1''", OF valid_apple] f
    by blast
  then have 3: "fst (getCalories (\<lambda>n. ''1'') 3600 (failSearch ?busy) 0
         (JStr ''apple'') (JNum 1) initialState) =
     Inl (ServiceError ProviderError
            ''Service temporarily busy, please try again in a few minutes'' ?busy ''FoodService'')"
    by (simp add: handleError_def errorMappings_def)
  have cm: "calories ?mac = Some 350"
    by (simp add: candidateOf_def)
  have sm: "constSearch [?mac] (upstreamCalls initialState)
      (strOf (JStr ''macaroni and cheese'')) 10 = Inr (Some [?mac])"
    by (simp add: constSearch_def)
  have bm: "fst (findBestMatch (strOf (JStr ''macaroni and cheese'')) [?mac]) = Some ?mac"
    using best_macaroni by simp
  have hyp: "constSearch [?mac] (upstreamCalls initialState)
        (strOf (JStr ''macaroni and cheese'')) 10 \<noteq> Inr None \<and>
      constSearch [?mac] (upstreamCalls initialState)
        (strOf (JStr ''macaroni and cheese'')) 10 \<noteq> Inr (Some []) \<and>
      (\<forall>msg. constSearch [?mac] (upstreamCalls initialState)
        (strOf (JStr ''macaroni and cheese'')) 10 \<noteq> Inl msg) \<and>
      (\<forall>found bm.
         constSearch [?mac] (upstreamCalls initialState)
           (strOf (JStr ''macaroni and cheese'')) 10 = Inr (Some found) \<and>
         fst (findBestMatch (strOf (JStr ''macaroni and cheese'')) found) = Some bm
         \<longrightarrow> calories bm \<noteq> None \<and> calories bm \<noteq> Some 0)"
    using sm bm cm by auto
  have 4: "\<exists>r. fst (getCalories (\<lambda>n. ''2'') 3600 (constSearch [?mac]) 0
               (JStr ''macaroni and cheese'') (JNum 2) initialState) = Inr r"
    using t[where search = "constSearch [?mac]" and toStr = "\<lambda>n. ''2''", OF valid_macaroni] hyp
    by blast
  show ?thesis
    using valid_apple valid_macaroni e 1 bn cn 2 f 3 bm cm 4 by blast
qed

section \<open>Consecutive calls\<close>




section \<open>The batch controller loop\<close>










section \<open>Input validation\<close>

lemma trim_padded: "trim paddedName = ''pizza''"
  by (simp add: paddedName_def trim_def isWhiteSpace_def dropWhile_append)

lemma length_padded: "length paddedName = 201"
  by (simp add: paddedName_def)

lemma padded_nonempty: "paddedName \<noteq> []"
  by (simp add: paddedName_def)

lemma validateInput_Some_cases:
  assumes "validateInput dn sv = Some e"
  shows "e = Error ValidationError ''Dish name is required and must be a non-empty string'' \<or>
         e = Error ValidationError ''Servings must be a positive number'' \<or>
         e = Error ValidationError ''Maximum 50 servings allowed'' \<or>
         e = Error ValidationError ''Dish name too long (maximum 200 characters)''"
  using assms by (auto simp: validateInput_def split: if_splits)

lemma getCalories_validation_iff:
  "(\<exists>e. fst (getCalories toStr ttl search now dn sv st) = Inl e \<and> skind e = ValidationError) \<longleftrightarrow>
   \<not> (\<exists>d s. dn = JStr d \<and> sv = JNum s \<and> trim d \<noteq> [] \<and> length d \<le> 200 \<and> 0 < s \<and> s \<le> 50)"
proof (cases "validateInput dn sv")
  case None
  have "skind e \<noteq> ValidationError" if "fst (getCalories toStr ttl search now dn sv st) = Inl e" for e
    using that None
    by (auto simp: getCalories_def Let_def handleError_kind notFoundUnavailable_def
        calculateCalories_def truthyInt_iff
        split: option.splits sum.splits if_splits)
  then show ?thesis
    using None validateInput_None_iff[of dn sv] by auto
next
  case (Some e)
  then have "fst (getCalories toStr ttl search now dn sv st) = Inl (handleError e)"
    by (simp add: getCalories_invalid)
  moreover have "skind (handleError e) = ValidationError"
    using validateInput_Some_cases[OF Some] by (auto simp: handleError_kind)
  ultimately show ?thesis
    using Some validateInput_None_iff[of dn sv] by auto
qed

text \<open>
  Claim C4 at the dish name \<open>paddedName\<close> with one serving: the name has 201 characters
  and 5 after trimming, so the claim counts it valid (its trimmed form passes the
  validation), but \<open>_validateInput\<close> compares the length before trimming with 200 and
  \<open>getCalories\<close> fails with the validation error \<open>Dish name too long\<close>.
\<close>

theorem validateInput_untrimmed_length:
  "length paddedName = 201 \<and>
   length (trim paddedName) = 5 \<and>
   validateInput (JStr paddedName) (JNum 1) =
     Some (Error ValidationError ''Dish name too long (maximum 200 characters)'') \<and>
   validateInput (JStr (trim paddedName)) (JNum 1) = None \<and>
   getCalories (\<lambda>n. ''1'') 3600 (constSearch []) 0 (JStr paddedName) (JNum 1) initialState =
     (Inl (ServiceError ValidationError ''Dish name too long (maximum 200 characters)''
             ''Dish name too long (maximum 200 characters)'' ''FoodService''),
      initialState)"
proof -
  have v: "validateInput (JStr paddedName) (JNum 1) =
     Some (Error ValidationError ''Dish name too long (maximum 200 characters)'')"
    by (simp add: validateInput_def trim_padded length_padded padded_nonempty)
  have p: "validateInput (JStr ''pizza'') (JNum 1) = None"
    by (simp add: validateInput_def trim_def isWhiteSpace_def)
  have h: "handleError (Error ValidationError ''Dish name too long (maximum 200 characters)'') =
     ServiceError ValidationError ''Dish name too long (maximum 200 characters)''
             ''Dish name too long (maximum 200 characters)'' ''FoodService''"
    by (simp add: handleError_def errorMappings_def)
  show ?thesis
    using v p h getCalories_invalid[OF v] by (simp add: trim_padded length_padded)
qed

text \<open>
  The evaluation of C4 used once more: the padded name and its trimmed form are treated
  differently by the validation.
\<close>

theorem validateInput_untrimmed_length_witness:
  "validateInput (JStr paddedName) (JNum 1) \<noteq> validateInput (JStr (trim paddedName)) (JNum 1)"
  using validateInput_untrimmed_length by simp

section \<open>The rules of the best-match selection\<close>

lemma find_firstWith: "find P xs = Some x \<longleftrightarrow> firstWith P xs x"
  unfolding firstWith_def find_Some_iff by auto

lemma find_None_set: "find P xs = None \<longleftrightarrow> (\<forall>x\<in>set xs. \<not> P x)"
  by (auto simp: find_None_iff)

lemma hasCalories_iff: "hasCalories x \<longleftrightarrow> (\<exists>c. calories x = Some c \<and> 0 < c)"
  by (cases "calories x") (auto simp: hasCalories_def)

lemma hasEnergyNutrient_iff:
  "hasEnergyNutrient x \<longleftrightarrow> (\<exists>e. energyOf x = Some e \<and> 0 < nutrient_value e)"
  by (cases "energyOf x") (auto simp: hasEnergyNutrient_def)

lemma setCaloriesFromEnergy_Some:
  "energyOf x = Some e \<Longrightarrow>
   setCaloriesFromEnergy x = x\<lparr>calories := Some (Math_round (nutrient_value e))\<rparr>"
  by (simp add: setCaloriesFromEnergy_def)

lemma setCaloriesFromEnergy_None: "energyOf x = None \<Longrightarrow> setCaloriesFromEnergy x = x"
  by (simp add: setCaloriesFromEnergy_def)

lemma exact_find:
  "(case find (isExactMatch d) xs of Some m \<Rightarrow> truthyInt (calories m) | None \<Rightarrow> False) \<longleftrightarrow>
   exactWithCalories d xs"
proof -
  have e: "isExactMatch d = (\<lambda>x. toLowerCase (description x) = toLowerCase d)"
    by (auto simp: isExactMatch_def)
  show ?thesis
    unfolding exactWithCalories_def e find_firstWith[symmetric]
    by (auto split: option.splits)
qed

lemma findBestMatch_rule1:
  assumes "firstWith (\<lambda>x. toLowerCase (description x) = toLowerCase d) xs m"
    and "truthyInt (calories m)"
  shows "findBestMatch d xs = (Some m, xs)"
proof -
  have e: "isExactMatch d = (\<lambda>x. toLowerCase (description x) = toLowerCase d)"
    by (auto simp: isExactMatch_def)
  have f: "find (isExactMatch d) xs = Some m"
    using assms(1) unfolding e find_firstWith .
  then have "xs \<noteq> []" by auto
  then show ?thesis
    using f assms(2) by (cases xs) (simp_all add: findBestMatch_def)
qed

lemma findBestMatch_rule2:
  assumes "\<not> exactWithCalories d xs"
    and "firstWith (\<lambda>x. \<exists>c. calories x = Some c \<and> 0 < c) xs m"
  shows "findBestMatch d xs = (Some m, xs)"
proof -
  have e: "hasCalories = (\<lambda>x. \<exists>c. calories x = Some c \<and> 0 < c)"
    by (auto simp: hasCalories_iff)
  have f: "find hasCalories xs = Some m"
    using assms(2) unfolding e find_firstWith .
  then have "xs \<noteq> []" by auto
  then show ?thesis
    using f assms(1) exact_find[of d xs]
    by (cases xs) (simp_all add: findBestMatch_def Let_def)
qed

lemma findBestMatch_rule3:
  assumes "\<not> exactWithCalories d xs"
    and "\<forall>x\<in>set xs. \<not> (\<exists>c. calories x = Some c \<and> 0 < c)"
    and "firstWith (\<lambda>x. \<exists>e. energyOf x = Some e \<and> 0 < nutrient_value e) xs m"
  shows "findBestMatch d xs =
     (Some (setCaloriesFromEnergy m), updateFirst hasEnergyNutrient setCaloriesFromEnergy xs)"
proof -
  have e: "hasEnergyNutrient = (\<lambda>x. \<exists>e. energyOf x = Some e \<and> 0 < nutrient_value e)"
    by (auto simp: hasEnergyNutrient_iff)
  have f: "find hasEnergyNutrient xs = Some m"
    using assms(3) unfolding e find_firstWith .
  have g: "find hasCalories xs = None"
    using assms(2) by (simp add: find_None_set hasCalories_iff)
  from f have "xs \<noteq> []" by auto
  then show ?thesis
    using f g assms(1) exact_find[of d xs]
    by (cases xs) (simp_all add: findBestMatch_def Let_def)
qed

lemma findBestMatch_rule4:
  assumes "\<not> exactWithCalories d (x # xs)"
    and "\<forall>y\<in>set (x # xs). \<not> (\<exists>c. calories y = Some c \<and> 0 < c)"
    and "\<forall>y\<in>set (x # xs). \<not> (\<exists>e. energyOf y = Some e \<and> 0 < nutrient_value e)"
  shows "findBestMatch d (x # xs) = (Some (setCaloriesFromEnergy x), setCaloriesFromEnergy x # xs)"
proof -
  have g: "find hasCalories (x # xs) = None"
    using assms(2) unfolding find_None_set by (simp add: hasCalories_iff)
  have h: "find hasEnergyNutrient (x # xs) = None"
    using assms(3) unfolding find_None_set by (simp add: hasEnergyNutrient_iff)
  show ?thesis
    using g h assms(1) exact_find[of d "x # xs"]
    unfolding findBestMatch_def by (simp add: Let_def)
qed

lemma lower_samples:
  "toLowerCase ''Pizza'' = ''pizza''" "toLowerCase ''PIZZA'' = ''pizza''"
  "toLowerCase ''pizza'' = ''pizza''" "toLowerCase ''Calzone'' = ''calzone''"
  "toLowerCase ''Salad'' = ''salad''" "toLowerCase ''Soup'' = ''soup''"
  "toLowerCase ''soup'' = ''soup''"
  by code_simp+

lemma round_5_2: "Math_round (5 / 2) = 3"
  by (simp add: Math_round_def floor_eq_iff)

lemma pizza_actual:
  "findBestMatch ''pizza'' pizzaList = (Some (candidateOf ''Calzone'' (Some 50) None), pizzaList)"
  by (simp add: findBestMatch_def pizzaList_def isExactMatch_def hasCalories_def candidateOf_def
      lower_samples)

lemma pizza_spec:
  "specBestMatch ''pizza'' pizzaList = Some (candidateOf ''PIZZA'' (Some 100) None)"
  by (simp add: specBestMatch_def pizzaList_def candidateOf_def lower_samples)

lemma soup_actual:
  "findBestMatch ''soup'' soupList =
     (Some (candidateOf ''Soup'' (Some 3) (Some (5 / 2))),
      [candidateOf ''Salad'' None None, candidateOf ''Soup'' (Some 3) (Some (5 / 2))])"
  by (simp add: findBestMatch_def soupList_def isExactMatch_def hasCalories_def candidateOf_def
      hasEnergyNutrient_def energyOf_def setCaloriesFromEnergy_def lower_samples round_5_2)

lemma exactWithCalories_eval:
  "exactWithCalories d xs \<longleftrightarrow>
     (case find (\<lambda>x. toLowerCase (description x) = toLowerCase d) xs of
        Some m \<Rightarrow> truthyInt (calories m)
      | None \<Rightarrow> False)"
  unfolding exactWithCalories_def find_firstWith[symmetric]
  by (auto split: option.splits)

lemma find_firstIndex: "find P xs = map_option (\<lambda>i. xs ! i) (firstIndex P xs)"
  by (induction xs) (auto simp: option.map_comp comp_def)

lemma firstIndex_Some:
  "firstIndex P xs = Some i \<Longrightarrow> i < length xs \<and> P (xs ! i) \<and> (\<forall>k<i. \<not> P (xs ! k))"
proof (induction xs arbitrary: i)
  case Nil
  then show ?case by simp
next
  case (Cons x xs)
  show ?case
  proof (cases "P x")
    case True
    with Cons.prems show ?thesis by simp
  next
    case False
    with Cons.prems obtain j where j: "firstIndex P xs = Some j" "i = Suc j"
      by auto
    from Cons.IH[OF j(1)] False j(2) show ?thesis
      by (auto simp: nth_Cons split: nat.splits)
  qed
qed

lemma firstIndex_None: "firstIndex P xs = None \<longleftrightarrow> (\<forall>x\<in>set xs. \<not> P x)"
  by (induction xs) auto

lemma updateFirst_firstIndex:
  "updateFirst P f xs =
     (case firstIndex P xs of None \<Rightarrow> xs | Some j \<Rightarrow> xs[j := f (xs ! j)])"
  by (induction xs) (auto split: option.splits)

lemma firstIndex_cong: "map Q xs = map Q ys \<Longrightarrow> firstIndex Q xs = firstIndex Q ys"
proof (induction xs arbitrary: ys)
  case Nil
  then show ?case by simp
next
  case (Cons x xs)
  then obtain y ys' where "ys = y # ys'" by (cases ys) auto
  with Cons show ?case by auto
qed

lemma firstIndex_update_same:
  assumes "j < length xs" and "Q y = Q (xs ! j)"
  shows "firstIndex Q (xs[j := y]) = firstIndex Q xs"
proof -
  have "map Q (xs[j := y]) = (map Q xs)[j := Q (xs ! j)]"
    using assms by (simp add: map_update)
  also have "\<dots> = map Q xs"
    using assms(1) by (metis list_update_id nth_map)
  finally show ?thesis
    by (rule firstIndex_cong)
qed

text \<open>The list after the call differs from the list before in one position at most.\<close>

lemma findBestMatch_shape:
  "snd (findBestMatch d xs) = xs \<or>
   (\<exists>j<length xs. snd (findBestMatch d xs) = xs[j := setCaloriesFromEnergy (xs ! j)] \<and>
      fst (findBestMatch d xs) = Some (setCaloriesFromEnergy (xs ! j)))"
proof (cases xs)
  case Nil
  then show ?thesis by (simp add: findBestMatch_Nil)
next
  case (Cons x rest)
  show ?thesis
  proof (cases "find hasEnergyNutrient xs")
    case None
    have "snd (findBestMatch d xs) = xs \<or>
      (snd (findBestMatch d xs) = xs[0 := setCaloriesFromEnergy (xs ! 0)] \<and>
       fst (findBestMatch d xs) = Some (setCaloriesFromEnergy (xs ! 0)))"
      using None Cons by (auto simp: findBestMatch_def Let_def split: option.splits)
    then show ?thesis using Cons by auto
  next
    case (Some w)
    then obtain j where j: "firstIndex hasEnergyNutrient xs = Some j" "w = xs ! j"
      by (auto simp: find_firstIndex)
    then have jl: "j < length xs"
      using firstIndex_Some by fastforce
    have "snd (findBestMatch d xs) = xs \<or>
      (snd (findBestMatch d xs) = xs[j := setCaloriesFromEnergy (xs ! j)] \<and>
       fst (findBestMatch d xs) = Some (setCaloriesFromEnergy (xs ! j)))"
      using Some j Cons
      by (auto simp: findBestMatch_def Let_def updateFirst_firstIndex split: option.splits)
    then show ?thesis using jl by auto
  qed
qed

lemma setCaloriesFromEnergy_frame:
  "(setCaloriesFromEnergy x)\<lparr>calories := calories x\<rparr> = x"
  by (simp add: setCaloriesFromEnergy_def split: option.splits)

lemma setCaloriesFromEnergy_changed:
  "setCaloriesFromEnergy x \<noteq> x \<Longrightarrow>
   \<exists>e. energyOf x = Some e \<and>
       calories (setCaloriesFromEnergy x) = Some (Math_round (nutrient_value e))"
  by (auto simp: setCaloriesFromEnergy_def split: option.splits)

lemma energyOf_setCalories [simp]: "energyOf (setCaloriesFromEnergy x) = energyOf x"
  by (simp add: setCaloriesFromEnergy_def energyOf_def split: option.splits)

lemma setCaloriesFromEnergy_idem [simp]:
  "setCaloriesFromEnergy (setCaloriesFromEnergy x) = setCaloriesFromEnergy x"
proof (cases "energyOf x")
  case None
  then show ?thesis by (simp add: setCaloriesFromEnergy_None)
next
  case (Some e)
  then have "energyOf (setCaloriesFromEnergy x) = Some e" by simp
  then show ?thesis
    using Some by (simp add: setCaloriesFromEnergy_Some)
qed

lemma isExactMatch_setCalories [simp]:
  "isExactMatch d (setCaloriesFromEnergy x) = isExactMatch d x"
  by (simp add: isExactMatch_def setCaloriesFromEnergy_def split: option.splits)

lemma hasEnergyNutrient_setCalories [simp]:
  "hasEnergyNutrient (setCaloriesFromEnergy x) = hasEnergyNutrient x"
  by (simp add: hasEnergyNutrient_def)

lemma firstIndex_update_only:
  assumes "j < length xs" and "\<forall>k<length xs. \<not> Q (xs ! k)"
  shows "firstIndex Q (xs[j := y]) = (if Q y then Some j else None)"
  using assms
proof (induction xs arbitrary: j)
  case Nil
  then show ?case by simp
next
  case (Cons x xs)
  have nx: "\<not> Q x" using Cons.prems(2) by auto
  have rest: "\<forall>k<length xs. \<not> Q (xs ! k)" using Cons.prems(2) by auto
  show ?case
  proof (cases j)
    case 0
    have "firstIndex Q xs = None"
      using rest by (auto simp: firstIndex_None in_set_conv_nth)
    with 0 show ?thesis by simp
  next
    case (Suc i)
    with Cons.prems(1) have "i < length xs" by simp
    from Cons.IH[OF this rest] Suc nx show ?thesis by simp
  qed
qed

lemma findBestMatch_unfold_exact:
  assumes "find (isExactMatch d) xs = Some m" and "truthyInt (calories m)"
  shows "findBestMatch d xs = (Some m, xs)"
proof (cases xs)
  case Nil
  with assms(1) show ?thesis by simp
next
  case (Cons x rest)
  have "findBestMatch d (x # rest) = (Some m, x # rest)"
    using assms unfolding Cons findBestMatch_def by simp
  then show ?thesis unfolding Cons .
qed

lemma findBestMatch_unfold_cal:
  assumes "\<not> exactOK d xs" and "find hasCalories xs = Some m"
  shows "findBestMatch d xs = (Some m, xs)"
proof (cases xs)
  case Nil
  with assms(2) show ?thesis by simp
next
  case (Cons x rest)
  have "findBestMatch d (x # rest) = (Some m, x # rest)"
    using assms unfolding Cons findBestMatch_def exactOK_def by (simp add: Let_def)
  then show ?thesis unfolding Cons .
qed

lemma findBestMatch_unfold_energy:
  assumes "\<not> exactOK d xs" and "find hasCalories xs = None"
    and "find hasEnergyNutrient xs = Some w"
  shows "findBestMatch d xs =
     (Some (setCaloriesFromEnergy w), updateFirst hasEnergyNutrient setCaloriesFromEnergy xs)"
proof (cases xs)
  case Nil
  with assms(3) show ?thesis by simp
next
  case (Cons x rest)
  have "findBestMatch d (x # rest) =
     (Some (setCaloriesFromEnergy w),
      updateFirst hasEnergyNutrient setCaloriesFromEnergy (x # rest))"
    using assms unfolding Cons findBestMatch_def exactOK_def by (simp add: Let_def)
  then show ?thesis unfolding Cons .
qed

lemma findBestMatch_unfold_first:
  assumes "\<not> exactOK d (x # rest)" and "find hasCalories (x # rest) = None"
    and "find hasEnergyNutrient (x # rest) = None"
  shows "findBestMatch d (x # rest) =
     (Some (setCaloriesFromEnergy x), setCaloriesFromEnergy x # rest)"
  using assms unfolding findBestMatch_def exactOK_def by (simp add: Let_def)

lemma findBestMatch_again:
  assumes j: "j < length xs"
    and ne: "\<not> exactOK d xs"
    and nc: "\<forall>k<length xs. \<not> hasCalories (xs ! k)"
    and en: "firstIndex hasEnergyNutrient xs = Some j \<or>
             (firstIndex hasEnergyNutrient xs = None \<and> j = 0)"
  shows "findBestMatch d (xs[j := setCaloriesFromEnergy (xs ! j)]) =
           (Some (setCaloriesFromEnergy (xs ! j)), xs[j := setCaloriesFromEnergy (xs ! j)])"
proof -
  define w where "w = setCaloriesFromEnergy (xs ! j)"
  define ys where "ys = xs[j := w]"
  have len: "length ys = length xs" by (simp add: ys_def)
  have ysj: "ys ! j = w" using j by (simp add: ys_def)
  have widem: "setCaloriesFromEnergy w = w" by (simp add: w_def)
  have fi_exact: "firstIndex (isExactMatch d) ys = firstIndex (isExactMatch d) xs"
    unfolding ys_def w_def by (rule firstIndex_update_same[OF j]) simp
  have fi_energy: "firstIndex hasEnergyNutrient ys = firstIndex hasEnergyNutrient xs"
    unfolding ys_def w_def by (rule firstIndex_update_same[OF j]) simp
  have fi_cal: "firstIndex hasCalories ys = (if hasCalories w then Some j else None)"
    unfolding ys_def using firstIndex_update_only[OF j nc] .
  have find_cal: "find hasCalories ys = (if hasCalories w then Some w else None)"
    using fi_cal ysj by (simp add: find_firstIndex)
  have exact_ys: "m = w"
    if f: "find (isExactMatch d) ys = Some m" and t: "truthyInt (calories m)" for m
  proof -
    from f obtain e where e: "firstIndex (isExactMatch d) xs = Some e" "m = ys ! e"
      unfolding find_firstIndex fi_exact by auto
    show "m = w"
    proof (cases "e = j")
      case True
      then show ?thesis using e ysj by simp
    next
      case False
      then have "ys ! e = xs ! e" by (simp add: ys_def)
      moreover have "find (isExactMatch d) xs = Some (xs ! e)"
        using e(1) by (simp add: find_firstIndex)
      ultimately have "\<not> truthyInt (calories m)"
        using ne e(2) by (simp add: exactOK_def)
      with t show ?thesis by simp
    qed
  qed
  have "findBestMatch d ys = (Some w, ys)"
  proof (cases "exactOK d ys")
    case True
    then obtain m where m: "find (isExactMatch d) ys = Some m" "truthyInt (calories m)"
      by (auto simp: exactOK_def split: option.splits)
    with exact_ys have "m = w" by blast
    with m show ?thesis
      using findBestMatch_unfold_exact[of d ys m] by simp
  next
    case ex: False
    show ?thesis
    proof (cases "hasCalories w")
      case True
      then show ?thesis
        using findBestMatch_unfold_cal[OF ex, of w] find_cal by simp
    next
      case nw: False
      then have fc: "find hasCalories ys = None"
        using find_cal by simp
      from en show ?thesis
      proof
        assume a: "firstIndex hasEnergyNutrient xs = Some j"
        have fe: "find hasEnergyNutrient ys = Some w"
          using a fi_energy ysj by (simp add: find_firstIndex)
        have "updateFirst hasEnergyNutrient setCaloriesFromEnergy ys = ys[j := w]"
          using a fi_energy ysj widem by (simp add: updateFirst_firstIndex)
        also have "\<dots> = ys"
          using ysj list_update_id[of ys j] by simp
        finally show ?thesis
          using findBestMatch_unfold_energy[OF ex fc fe] widem by simp
      next
        assume a: "firstIndex hasEnergyNutrient xs = None \<and> j = 0"
        obtain y rest where cons: "ys = y # rest"
          using j len by (cases ys) auto
        have yw: "y = w"
          using ysj a cons by simp
        have fe: "find hasEnergyNutrient (y # rest) = None"
          using a fi_energy unfolding cons[symmetric] by (simp add: find_firstIndex)
        have "findBestMatch d (y # rest) =
            (Some (setCaloriesFromEnergy y), setCaloriesFromEnergy y # rest)"
          using findBestMatch_unfold_first[of d y rest] ex fc fe unfolding cons by blast
        then show ?thesis
          unfolding cons yw using widem by simp
      qed
    qed
  qed
  then show ?thesis
    by (simp add: ys_def w_def)
qed

lemma findBestMatch_idempotent:
  "findBestMatch d (snd (findBestMatch d xs)) = findBestMatch d xs"
proof (cases xs)
  case Nil
  then show ?thesis by (simp add: findBestMatch_Nil)
next
  case (Cons x rest)
  show ?thesis
  proof (cases "exactOK d xs")
    case True
    then obtain m where "find (isExactMatch d) xs = Some m" "truthyInt (calories m)"
      by (auto simp: exactOK_def split: option.splits)
    then have "snd (findBestMatch d xs) = xs"
      using findBestMatch_unfold_exact[of d xs m] by simp
    then show ?thesis by simp
  next
    case ne: False
    show ?thesis
    proof (cases "find hasCalories xs")
      case (Some c)
      then have "snd (findBestMatch d xs) = xs"
        using findBestMatch_unfold_cal[OF ne, of c] by simp
      then show ?thesis by simp
    next
      case None
      then have nc: "\<forall>k<length xs. \<not> hasCalories (xs ! k)"
        by (auto simp: find_None_iff)
      show ?thesis
      proof (cases "firstIndex hasEnergyNutrient xs")
        case (Some j)
        then have j: "j < length xs"
          using firstIndex_Some by fastforce
        have fe: "find hasEnergyNutrient xs = Some (xs ! j)"
          using Some by (simp add: find_firstIndex)
        have r: "findBestMatch d xs =
           (Some (setCaloriesFromEnergy (xs ! j)), xs[j := setCaloriesFromEnergy (xs ! j)])"
          using findBestMatch_unfold_energy[OF ne None fe] Some
          by (simp add: updateFirst_firstIndex)
        show ?thesis
          unfolding r using findBestMatch_again[OF j ne nc] Some by simp
      next
        case fn: None
        have j: "0 < length xs" using Cons by simp
        have fe: "find hasEnergyNutrient (x # rest) = None"
          using fn unfolding Cons by (simp add: find_firstIndex)
        have "findBestMatch d (x # rest) =
           (Some (setCaloriesFromEnergy x), setCaloriesFromEnergy x # rest)"
          using findBestMatch_unfold_first[of d x rest] ne None fe unfolding Cons by blast
        then have r: "findBestMatch d xs =
           (Some (setCaloriesFromEnergy (xs ! 0)), xs[0 := setCaloriesFromEnergy (xs ! 0)])"
          unfolding Cons by simp
        show ?thesis
          unfolding r using findBestMatch_again[OF j ne nc] fn by simp
      qed
    qed
  qed
qed

lemma findBestMatch_unchanged:
  assumes "exactWithCalories d xs \<or> (\<exists>x\<in>set xs. \<exists>c. calories x = Some c \<and> 0 < c)"
  shows "snd (findBestMatch d xs) = xs"
proof (cases "exactWithCalories d xs")
  case True
  then obtain m where "firstWith (\<lambda>x. toLowerCase (description x) = toLowerCase d) xs m"
    "truthyInt (calories m)"
    by (auto simp: exactWithCalories_def)
  then show ?thesis
    using findBestMatch_rule1[of d xs m] by simp
next
  case False
  with assms have "\<exists>x\<in>set xs. hasCalories x"
    by (auto simp: hasCalories_iff)
  then obtain m where m: "find hasCalories xs = Some m"
    by (cases "find hasCalories xs") (auto simp: find_None_iff)
  have "\<not> exactOK d xs"
    using False exact_find[of d xs] by (simp add: exactOK_def)
  then show ?thesis
    using findBestMatch_unfold_cal[OF _ m] by simp
qed

section \<open>Precedence of the selection\<close>

text \<open>
  Claim C2, as the code has it. The exact-match rule looks only at the first candidate
  whose description equals the query: in \<open>pizzaList\<close> that candidate has no calorie value,
  so \<open>_findBestMatch\<close> goes on to the second rule and selects \<open>Calzone\<close>, whereas the
  rule as the claim words it selects the later candidate \<open>PIZZA\<close>, whose description
  equals the query and which has a calorie value. A candidate named like the query with
  the resolved calorie value \<open>0\<close> is passed over in the same way, and from the empty list
  nothing is selected.
\<close>

theorem findBestMatch_not_spec:
  "fst (findBestMatch ''pizza'' pizzaList) = Some (candidateOf ''Calzone'' (Some 50) None) \<and>
   specBestMatch ''pizza'' pizzaList = Some (candidateOf ''PIZZA'' (Some 100) None) \<and>
   fst (findBestMatch ''pizza'' pizzaList) \<noteq> specBestMatch ''pizza'' pizzaList \<and>
   fst (findBestMatch ''pizza''
          [candidateOf ''Pizza'' (Some 0) None, candidateOf ''Calzone'' (Some 50) None]) =
     Some (candidateOf ''Calzone'' (Some 50) None) \<and>
   specBestMatch ''pizza''
     [candidateOf ''Pizza'' (Some 0) None, candidateOf ''Calzone'' (Some 50) None] =
     Some (candidateOf ''Pizza'' (Some 0) None) \<and>
   fst (findBestMatch ''pizza'' []) = None"
proof -
  have z: "fst (findBestMatch ''pizza''
          [candidateOf ''Pizza'' (Some 0) None, candidateOf ''Calzone'' (Some 50) None]) =
     Some (candidateOf ''Calzone'' (Some 50) None)"
    by (simp add: findBestMatch_def isExactMatch_def hasCalories_def candidateOf_def
        lower_samples)
  have zs: "specBestMatch ''pizza''
     [candidateOf ''Pizza'' (Some 0) None, candidateOf ''Calzone'' (Some 50) None] =
     Some (candidateOf ''Pizza'' (Some 0) None)"
    by (simp add: specBestMatch_def candidateOf_def lower_samples)
  have d: "fst (findBestMatch ''pizza'' pizzaList) \<noteq> specBestMatch ''pizza'' pizzaList"
    by (simp add: pizza_actual pizza_spec candidateOf_def)
  show ?thesis
    using z zs d by (simp add: pizza_actual pizza_spec findBestMatch_Nil)
qed

text \<open>
  Claim C2, amended: for every dish name and every candidate list, \<open>_findBestMatch\<close>
  selects nothing from the empty list and exactly one candidate from any other list, by
  this precedence: (1) the first candidate in rank order whose description equals the
  query case-insensitively, if its calorie value is neither missing nor \<open>0\<close>; (2) else the
  first candidate in rank order with a calorie value above \<open>0\<close>; (3) else the first
  candidate with an energy nutrient whose value is above \<open>0\<close>, with its calorie value set
  to that value rounded; (4) else the first candidate in rank order, with its calorie
  value set to its rounded energy nutrient value if it has an energy nutrient, and as it
  is, possibly without a calorie value, if it has none.
\<close>

theorem findBestMatch_precedence:
  "(xs = [] \<longrightarrow> fst (findBestMatch d xs) = None) \<and>
   (xs \<noteq> [] \<longrightarrow> (\<exists>m. fst (findBestMatch d xs) = Some m)) \<and>
   (\<forall>m. firstWith (\<lambda>x. toLowerCase (description x) = toLowerCase d) xs m \<and>
        truthyInt (calories m)
        \<longrightarrow> fst (findBestMatch d xs) = Some m) \<and>
   (\<forall>m. \<not> exactWithCalories d xs \<and>
        firstWith (\<lambda>x. \<exists>c. calories x = Some c \<and> 0 < c) xs m
        \<longrightarrow> fst (findBestMatch d xs) = Some m) \<and>
   (\<forall>m e. \<not> exactWithCalories d xs \<and>
        (\<forall>x\<in>set xs. \<not> (\<exists>c. calories x = Some c \<and> 0 < c)) \<and>
        firstWith (\<lambda>x. \<exists>e. energyOf x = Some e \<and> 0 < nutrient_value e) xs m \<and>
        energyOf m = Some e
        \<longrightarrow> fst (findBestMatch d xs) =
              Some (m\<lparr>calories := Some (Math_round (nutrient_value e))\<rparr>)) \<and>
   (xs \<noteq> [] \<and> \<not> exactWithCalories d xs \<and>
    (\<forall>x\<in>set xs. \<not> (\<exists>c. calories x = Some c \<and> 0 < c)) \<and>
    (\<forall>x\<in>set xs. \<not> (\<exists>e. energyOf x = Some e \<and> 0 < nutrient_value e))
    \<longrightarrow> fst (findBestMatch d xs) =
          Some (case energyOf (hd xs) of
                  None \<Rightarrow> hd xs
                | Some e \<Rightarrow> (hd xs)\<lparr>calories := Some (Math_round (nutrient_value e))\<rparr>))"
proof (intro conjI allI impI)
  assume "xs = []"
  then show "fst (findBestMatch d xs) = None"
    by (simp add: findBestMatch_Nil)
next
  assume "xs \<noteq> []"
  then show "\<exists>m. fst (findBestMatch d xs) = Some m"
    by (rule findBestMatch_Some)
next
  fix m
  assume "firstWith (\<lambda>x. toLowerCase (description x) = toLowerCase d) xs m \<and>
          truthyInt (calories m)"
  then show "fst (findBestMatch d xs) = Some m"
    using findBestMatch_rule1[of d xs m] by simp
next
  fix m
  assume "\<not> exactWithCalories d xs \<and>
          firstWith (\<lambda>x. \<exists>c. calories x = Some c \<and> 0 < c) xs m"
  then show "fst (findBestMatch d xs) = Some m"
    using findBestMatch_rule2[of d xs m] by simp
next
  fix m e
  assume h: "\<not> exactWithCalories d xs \<and>
        (\<forall>x\<in>set xs. \<not> (\<exists>c. calories x = Some c \<and> 0 < c)) \<and>
        firstWith (\<lambda>x. \<exists>e. energyOf x = Some e \<and> 0 < nutrient_value e) xs m \<and>
        energyOf m = Some e"
  then have "fst (findBestMatch d xs) = Some (setCaloriesFromEnergy m)"
    using findBestMatch_rule3[of d xs m] by simp
  then show "fst (findBestMatch d xs) =
              Some (m\<lparr>calories := Some (Math_round (nutrient_value e))\<rparr>)"
    using h by (simp add: setCaloriesFromEnergy_Some)
next
  assume h: "xs \<noteq> [] \<and> \<not> exactWithCalories d xs \<and>
    (\<forall>x\<in>set xs. \<not> (\<exists>c. calories x = Some c \<and> 0 < c)) \<and>
    (\<forall>x\<in>set xs. \<not> (\<exists>e. energyOf x = Some e \<and> 0 < nutrient_value e))"
  then obtain y ys where xs: "xs = y # ys"
    by (cases xs) auto
  have "fst (findBestMatch d (y # ys)) = Some (setCaloriesFromEnergy y)"
    using findBestMatch_rule4[of d y ys] h unfolding xs by simp
  then show "fst (findBestMatch d xs) =
          Some (case energyOf (hd xs) of
                  None \<Rightarrow> hd xs
                | Some e \<Rightarrow> (hd xs)\<lparr>calories := Some (Math_round (nutrient_value e))\<rparr>)"
    unfolding xs by (simp add: setCaloriesFromEnergy_def split: option.splits)
qed

text \<open>
  The rules of C2 at concrete search results: the empty list, the \<open>macaroni and cheese\<close>
  scenario for rule 1, \<open>pizzaList\<close> for rule 2, \<open>soupList\<close> for rule 3 and a single
  candidate without calorie data for rule 4.
\<close>

theorem findBestMatch_precedence_witness:
  "fst (findBestMatch ''pizza'' []) = None \<and>
   firstWith (\<lambda>x. toLowerCase (description x) = toLowerCase ''macaroni and cheese'')
     [candidateOf ''Macaroni and cheese'' (Some 350) None]
     (candidateOf ''Macaroni and cheese'' (Some 350) None) \<and>
   truthyInt (calories (candidateOf ''Macaroni and cheese'' (Some 350) None)) \<and>
   fst (findBestMatch ''macaroni and cheese''
          [candidateOf ''Macaroni and cheese'' (Some 350) None]) =
     Some (candidateOf ''Macaroni and cheese'' (Some 350) None) \<and>
   \<not> exactWithCalories ''pizza'' pizzaList \<and>
   firstWith (\<lambda>x. \<exists>c. calories x = Some c \<and> 0 < c) pizzaList
     (candidateOf ''Calzone'' (Some 50) None) \<and>
   fst (findBestMatch ''pizza'' pizzaList) = Some (candidateOf ''Calzone'' (Some 50) None) \<and>
   \<not> exactWithCalories ''soup'' soupList \<and>
   firstWith (\<lambda>x. \<exists>e. energyOf x = Some e \<and> 0 < nutrient_value e) soupList
     (candidateOf ''Soup'' (Some 0) (Some (5 / 2))) \<and>
   fst (findBestMatch ''soup'' soupList) = Some (candidateOf ''Soup'' (Some 3) (Some (5 / 2))) \<and>
   \<not> exactWithCalories ''apple'' [candidateOf ''apple'' None None] \<and>
   fst (findBestMatch ''apple'' [candidateOf ''apple'' None None]) =
     Some (candidateOf ''apple'' None None) \<and>
   (\<exists>m. fst (findBestMatch ''apple'' [candidateOf ''apple'' None None]) = Some m)"
proof -
  let ?mac = "candidateOf ''Macaroni and cheese'' (Some 350) None"
  let ?cal = "candidateOf ''Calzone'' (Some 50) None"
  let ?soup = "candidateOf ''Soup'' (Some 0) (Some (5 / 2))"
  let ?an = "candidateOf ''apple'' None None"
  note t = findBestMatch_precedence
  have 0: "fst (findBestMatch ''pizza'' []) = None"
    using t[of "[]" "''pizza''", THEN conjunct1] by simp
  have a1: "firstWith (\<lambda>x. toLowerCase (description x) = toLowerCase ''macaroni and cheese'')
     [?mac] ?mac"
    unfolding find_firstWith[symmetric] by (simp add: candidateOf_def lower_macaroni)
  have a2: "truthyInt (calories ?mac)"
    by (simp add: candidateOf_def)
  have 1: "fst (findBestMatch ''macaroni and cheese'' [?mac]) = Some ?mac"
    using t[of "[?mac]" "''macaroni and cheese''", THEN conjunct2, THEN conjunct2,
        THEN conjunct1, THEN spec, of ?mac] a1 a2
    by (elim impE) (rule conjI | assumption)+
  have b1: "\<not> exactWithCalories ''pizza'' pizzaList"
    unfolding exactWithCalories_eval
    by (simp add: pizzaList_def candidateOf_def lower_samples)
  have b2: "firstWith (\<lambda>x. \<exists>c. calories x = Some c \<and> 0 < c) pizzaList ?cal"
    unfolding find_firstWith[symmetric] by (simp add: pizzaList_def candidateOf_def)
  have 2: "fst (findBestMatch ''pizza'' pizzaList) = Some ?cal"
    using t[of pizzaList "''pizza''", THEN conjunct2, THEN conjunct2, THEN conjunct2,
        THEN conjunct1, THEN spec, of ?cal] b1 b2
    by (elim impE) (rule conjI | assumption)+
  have c1: "\<not> exactWithCalories ''soup'' soupList"
    unfolding exactWithCalories_eval
    by (simp add: soupList_def candidateOf_def lower_samples)
  have c2: "\<forall>x\<in>set soupList. \<not> (\<exists>c. calories x = Some c \<and> 0 < c)"
    by (simp add: soupList_def candidateOf_def)
  have c3: "firstWith (\<lambda>x. \<exists>e. energyOf x = Some e \<and> 0 < nutrient_value e) soupList ?soup"
    unfolding find_firstWith[symmetric]
    by (simp add: soupList_def candidateOf_def energyOf_def)
  have c4: "energyOf ?soup = Some \<lparr>nutrient_value = 5 / 2, nutrient_unit = Some ''KCAL''\<rparr>"
    by (simp add: candidateOf_def energyOf_def)
  have "fst (findBestMatch ''soup'' soupList) =
      Some (?soup\<lparr>calories := Some (Math_round (nutrient_value
         \<lparr>nutrient_value = 5 / 2, nutrient_unit = Some ''KCAL''\<rparr>))\<rparr>)"
    using t[of soupList "''soup''", THEN conjunct2, THEN conjunct2, THEN conjunct2,
        THEN conjunct2, THEN conjunct1, THEN spec, THEN spec,
        of ?soup "\<lparr>nutrient_value = 5 / 2, nutrient_unit = Some ''KCAL''\<rparr>"] c1 c2 c3 c4
    by (elim impE) (rule conjI | assumption)+
  then have 3: "fst (findBestMatch ''soup'' soupList) =
      Some (candidateOf ''Soup'' (Some 3) (Some (5 / 2)))"
    by (simp add: candidateOf_def round_5_2)
  have d0: "[?an] \<noteq> []"
    by simp
  have d1: "\<not> exactWithCalories ''apple'' [?an]"
    unfolding exactWithCalories_eval by (simp add: candidateOf_def lower_apple)
  have d2: "\<forall>x\<in>set [?an]. \<not> (\<exists>c. calories x = Some c \<and> 0 < c)"
    by (simp add: candidateOf_def)
  have d3: "\<forall>x\<in>set [?an]. \<not> (\<exists>e. energyOf x = Some e \<and> 0 < nutrient_value e)"
    by (simp add: candidateOf_def energyOf_def)
  have "fst (findBestMatch ''apple'' [?an]) =
      Some (case energyOf (hd [?an]) of
              None \<Rightarrow> hd [?an]
            | Some e \<Rightarrow> (hd [?an])\<lparr>calories := Some (Math_round (nutrient_value e))\<rparr>)"
    using t[of "[?an]" "''apple''", THEN conjunct2, THEN conjunct2, THEN conjunct2,
        THEN conjunct2, THEN conjunct2] d0 d1 d2 d3
    by (elim impE) (rule conjI | assumption)+
  then have 4: "fst (findBestMatch ''apple'' [?an]) = Some ?an"
    by (simp add: candidateOf_def energyOf_def)
  have 5: "\<exists>m. fst (findBestMatch ''apple'' [?an]) = Some m"
    using t[of "[?an]" "''apple''", THEN conjunct2, THEN conjunct1] d0
    by (elim impE) assumption+
  show ?thesis
    by (intro conjI) (rule 0 a1 a2 1 b1 b2 2 c1 c3 3 d1 4 5)+
qed

section \<open>What the selection modifies\<close>

lemma flat_1008_not_matched: "\<not> isEnergyNutrient (flatNutrient 1008 ''Energy'' v)"
  by (simp add: isEnergyNutrient_def flatNutrient_def)

lemma lower_cheddar:
  "toLowerCase ''Energy'' = ''energy''"
  "toLowerCase ''Cheese, cheddar'' = ''cheese, cheddar''"
  "toLowerCase ''cheddar'' = ''cheddar''"
  by code_simp+

text \<open>
  What the provider makes of a food record whose only nutrient is the energy entry in the
  flat format of the search API, with the identifier 1008: a candidate without a calorie
  value that has an energy nutrient. \<open>_findBestMatch\<close> selects it by rule 3.
\<close>

lemma provider_candidate:
  "transformSearchResults
     (Some [foodOf None (NutrientArray [flatNutrient 1008 ''Energy'' (5 / 2)])]) =
   [\<lparr>fdcId = 170000, description = ''Cheese, cheddar'', dataType = ''SR Legacy'',
     calories = None,
     nutrients = Some [''energy'' \<mapsto> \<lparr>nutrient_value = 5 / 2, nutrient_unit = Some ''KCAL''\<rparr>],
     ingredients = [], servingSize = None, brandOwner = None, score = Some 100\<rparr>]"
  by (simp add: transformSearchResults_def transformFood_def foodOf_def extractCalories_def
      flat_1008_not_matched extractNutrients_def extractNutrientsStep_def extractServingSize_def
      orElse0_def lower_cheddar)
    (simp add: flatNutrient_def lower_cheddar)

lemma provider_candidate_modified:
  "snd (findBestMatch ''cheddar''
     (transformSearchResults
        (Some [foodOf None (NutrientArray [flatNutrient 1008 ''Energy'' (5 / 2)])]))) =
   [\<lparr>fdcId = 170000, description = ''Cheese, cheddar'', dataType = ''SR Legacy'',
     calories = Some 3,
     nutrients = Some [''energy'' \<mapsto> \<lparr>nutrient_value = 5 / 2, nutrient_unit = Some ''KCAL''\<rparr>],
     ingredients = [], servingSize = None, brandOwner = None, score = Some 100\<rparr>]"
  unfolding provider_candidate
  by (simp add: findBestMatch_def isExactMatch_def hasCalories_def hasEnergyNutrient_def
      energyOf_def setCaloriesFromEnergy_def round_5_2 lower_cheddar)

text \<open>
  Claim C9, as the code has it. \<open>_findBestMatch\<close> assigns to the \<open>calories\<close> property of
  the candidate it selects by rule 3 or 4: in \<open>soupList\<close> the second candidate has the
  calorie value \<open>0\<close> before the call and \<open>3\<close> after it, so the list passed in is not
  left as it was. The same happens to the list that the provider makes of a food record
  with a flat energy entry: its candidate has no calorie value before the call and the
  calorie value \<open>3\<close> after it.
\<close>

theorem findBestMatch_modifies_candidate:
  "snd (findBestMatch ''soup'' soupList) =
     [candidateOf ''Salad'' None None, candidateOf ''Soup'' (Some 3) (Some (5 / 2))] \<and>
   snd (findBestMatch ''soup'' soupList) \<noteq> soupList \<and>
   calories (soupList ! 1) = Some 0 \<and>
   calories (snd (findBestMatch ''soup'' soupList) ! 1) = Some 3 \<and>
   map calories (transformSearchResults
     (Some [foodOf None (NutrientArray [flatNutrient 1008 ''Energy'' (5 / 2)])])) = [None] \<and>
   map calories (snd (findBestMatch ''cheddar'' (transformSearchResults
     (Some [foodOf None (NutrientArray [flatNutrient 1008 ''Energy'' (5 / 2)])])))) = [Some 3]"
proof -
  have a: "snd (findBestMatch ''soup'' soupList) =
     [candidateOf ''Salad'' None None, candidateOf ''Soup'' (Some 3) (Some (5 / 2))] \<and>
   snd (findBestMatch ''soup'' soupList) \<noteq> soupList \<and>
   calories (soupList ! 1) = Some 0 \<and>
   calories (snd (findBestMatch ''soup'' soupList) ! 1) = Some 3"
    by (simp add: soup_actual) (simp add: soupList_def candidateOf_def)
  have b: "map calories (transformSearchResults
     (Some [foodOf None (NutrientArray [flatNutrient 1008 ''Energy'' (5 / 2)])])) = [None]"
    by (simp add: provider_candidate)
  have c: "map calories (snd (findBestMatch ''cheddar'' (transformSearchResults
     (Some [foodOf None (NutrientArray [flatNutrient 1008 ''Energy'' (5 / 2)])])))) = [Some 3]"
    by (simp add: provider_candidate_modified)
  show ?thesis
    by (intro conjI) (rule a[THEN conjunct1] a[THEN conjunct2, THEN conjunct1]
      a[THEN conjunct2, THEN conjunct2, THEN conjunct1]
      a[THEN conjunct2, THEN conjunct2, THEN conjunct2] b c)+
qed

text \<open>
  Claim C9, amended: the selection is a function of the dish name and the candidate list
  alone. A call leaves the length of the list and every property of every candidate other
  than \<open>calories\<close> as they were; it changes the \<open>calories\<close> property of one candidate at
  most, which is then the selected candidate, to its rounded energy nutrient value, and
  changes nothing when rule 1 or rule 2 selects; and a second call on the list as the
  first call left it yields the same selection and changes nothing more.
\<close>

theorem findBestMatch_frame:
  "length (snd (findBestMatch d xs)) = length xs \<and>
   (\<forall>i<length xs. (snd (findBestMatch d xs) ! i)\<lparr>calories := calories (xs ! i)\<rparr> = xs ! i) \<and>
   (\<forall>i<length xs. snd (findBestMatch d xs) ! i \<noteq> xs ! i \<longrightarrow>
      fst (findBestMatch d xs) = Some (snd (findBestMatch d xs) ! i) \<and>
      (\<forall>k<length xs. k \<noteq> i \<longrightarrow> snd (findBestMatch d xs) ! k = xs ! k) \<and>
      (\<exists>e. energyOf (xs ! i) = Some e \<and>
           calories (snd (findBestMatch d xs) ! i) = Some (Math_round (nutrient_value e)))) \<and>
   (exactWithCalories d xs \<or> (\<exists>x\<in>set xs. \<exists>c. calories x = Some c \<and> 0 < c)
      \<longrightarrow> snd (findBestMatch d xs) = xs) \<and>
   findBestMatch d (snd (findBestMatch d xs)) = findBestMatch d xs"
proof -
  let ?r = "findBestMatch d xs"
  from findBestMatch_shape[of d xs]
  consider (same) "snd ?r = xs"
    | (upd) j where "j < length xs" "snd ?r = xs[j := setCaloriesFromEnergy (xs ! j)]"
        "fst ?r = Some (setCaloriesFromEnergy (xs ! j))"
    by blast
  then have main: "length (snd ?r) = length xs \<and>
   (\<forall>i<length xs. (snd ?r ! i)\<lparr>calories := calories (xs ! i)\<rparr> = xs ! i) \<and>
   (\<forall>i<length xs. snd ?r ! i \<noteq> xs ! i \<longrightarrow>
      fst ?r = Some (snd ?r ! i) \<and>
      (\<forall>k<length xs. k \<noteq> i \<longrightarrow> snd ?r ! k = xs ! k) \<and>
      (\<exists>e. energyOf (xs ! i) = Some e \<and>
           calories (snd ?r ! i) = Some (Math_round (nutrient_value e))))"
  proof cases
    case same
    then show ?thesis by simp
  next
    case upd
    have nth: "snd ?r ! i = (if i = j then setCaloriesFromEnergy (xs ! j) else xs ! i)"
      if "i < length xs" for i
      using that upd(1,2) by (simp add: nth_list_update)
    show ?thesis
    proof (intro conjI allI impI)
      show "length (snd ?r) = length xs"
        using upd(2) by simp
    next
      fix i assume "i < length xs"
      then show "(snd ?r ! i)\<lparr>calories := calories (xs ! i)\<rparr> = xs ! i"
        using nth[of i] setCaloriesFromEnergy_frame[of "xs ! j"] by (cases "i = j") simp_all
    next
      fix i assume i: "i < length xs" and ch: "snd ?r ! i \<noteq> xs ! i"
      then have ij: "i = j"
        using nth[of i] by (cases "i = j") simp_all
      show "fst ?r = Some (snd ?r ! i)"
        using upd(3) nth[OF i] ij by simp
      show "\<exists>e. energyOf (xs ! i) = Some e \<and>
           calories (snd ?r ! i) = Some (Math_round (nutrient_value e))"
        using setCaloriesFromEnergy_changed[of "xs ! j"] ch nth[OF i] ij by simp
      fix k assume "k < length xs" and "k \<noteq> i"
      then show "snd ?r ! k = xs ! k"
        using nth[of k] ij by simp
    qed
  qed
  have unch: "exactWithCalories d xs \<or> (\<exists>x\<in>set xs. \<exists>c. calories x = Some c \<and> 0 < c)
      \<longrightarrow> snd ?r = xs"
    using findBestMatch_unchanged[of d xs] by blast
  show ?thesis
    by (intro conjI)
      (rule main[THEN conjunct1] main[THEN conjunct2, THEN conjunct1]
        main[THEN conjunct2, THEN conjunct2] unch findBestMatch_idempotent)+
qed

text \<open>
  The parts of C9 at \<open>soupList\<close>, where the second candidate is modified, and at
  \<open>pizzaList\<close>, where rule 2 selects and nothing is modified.
\<close>

theorem findBestMatch_frame_witness:
  "length (snd (findBestMatch ''soup'' soupList)) = length soupList \<and>
   1 < length soupList \<and>
   snd (findBestMatch ''soup'' soupList) ! 1 \<noteq> soupList ! 1 \<and>
   (snd (findBestMatch ''soup'' soupList) ! 1)\<lparr>calories := calories (soupList ! 1)\<rparr> =
     soupList ! 1 \<and>
   fst (findBestMatch ''soup'' soupList) = Some (snd (findBestMatch ''soup'' soupList) ! 1) \<and>
   snd (findBestMatch ''soup'' soupList) ! 0 = soupList ! 0 \<and>
   (\<exists>e. energyOf (soupList ! 1) = Some e \<and>
        calories (snd (findBestMatch ''soup'' soupList) ! 1) =
          Some (Math_round (nutrient_value e))) \<and>
   (\<exists>x\<in>set pizzaList. \<exists>c. calories x = Some c \<and> 0 < c) \<and>
   snd (findBestMatch ''pizza'' pizzaList) = pizzaList \<and>
   findBestMatch ''soup'' (snd (findBestMatch ''soup'' soupList)) =
     findBestMatch ''soup'' soupList"
proof -
  note t = findBestMatch_frame[of "''soup''" soupList]
  note p = findBestMatch_frame[of "''pizza''" pizzaList]
  have l: "1 < length soupList" and l0: "0 < length soupList"
    by (simp_all add: soupList_def)
  have ch: "snd (findBestMatch ''soup'' soupList) ! 1 \<noteq> soupList ! 1"
    by (simp add: soup_actual) (simp add: soupList_def candidateOf_def)
  have 1: "length (snd (findBestMatch ''soup'' soupList)) = length soupList"
    using t by (elim conjE)
  have 2: "(snd (findBestMatch ''soup'' soupList) ! 1)\<lparr>calories := calories (soupList ! 1)\<rparr> =
     soupList ! 1"
    using t[THEN conjunct2, THEN conjunct1, THEN spec, of 1] l by (elim impE) assumption+
  have 3: "fst (findBestMatch ''soup'' soupList) =
        Some (snd (findBestMatch ''soup'' soupList) ! 1) \<and>
      (\<forall>k<length soupList. k \<noteq> 1 \<longrightarrow> snd (findBestMatch ''soup'' soupList) ! k = soupList ! k) \<and>
      (\<exists>e. energyOf (soupList ! 1) = Some e \<and>
           calories (snd (findBestMatch ''soup'' soupList) ! 1) =
             Some (Math_round (nutrient_value e)))"
    using t[THEN conjunct2, THEN conjunct2, THEN conjunct1, THEN spec, of 1] l ch
    by (elim impE) assumption+
  then have 4: "snd (findBestMatch ''soup'' soupList) ! 0 = soupList ! 0"
    using l0 by simp
  have b: "\<exists>x\<in>set pizzaList. \<exists>c. calories x = Some c \<and> 0 < c"
    by (simp add: pizzaList_def candidateOf_def)
  have 5: "snd (findBestMatch ''pizza'' pizzaList) = pizzaList"
    using p[THEN conjunct2, THEN conjunct2, THEN conjunct2, THEN conjunct1] b
    by (elim impE) (rule disjI2 | assumption)+
  have 6: "findBestMatch ''soup'' (snd (findBestMatch ''soup'' soupList)) =
     findBestMatch ''soup'' soupList"
    using t by (elim conjE)
  show ?thesis
    by (intro conjI)
      (rule 1 l ch 2 4 b 5 6 3[THEN conjunct1] 3[THEN conjunct2, THEN conjunct2])+
qed

section \<open>Calorie extraction\<close>

lemma startsWith_iff: "startsWith s p \<longleftrightarrow> (\<exists>q. s = p @ q)"
  by (induction s p rule: startsWith.induct) auto

lemma includes_str_iff: "includes_str s sub \<longleftrightarrow> (\<exists>p q. s = p @ sub @ q)"
proof (induction s)
  case Nil
  then show ?case by auto
next
  case (Cons c cs)
  show ?case
  proof
    assume "includes_str (c # cs) sub"
    then consider "startsWith (c # cs) sub" | "includes_str cs sub" by auto
    then show "\<exists>p q. c # cs = p @ sub @ q"
    proof cases
      case 1
      then obtain q where "c # cs = sub @ q" by (auto simp: startsWith_iff)
      then have "c # cs = [] @ sub @ q" by simp
      then show ?thesis by blast
    next
      case 2
      with Cons.IH obtain p q where "cs = p @ sub @ q" by blast
      then have "c # cs = (c # p) @ sub @ q" by simp
      then show ?thesis by blast
    qed
  next
    assume "\<exists>p q. c # cs = p @ sub @ q"
    then obtain p q where pq: "c # cs = p @ sub @ q" by blast
    show "includes_str (c # cs) sub"
    proof (cases p)
      case Nil
      with pq have "startsWith (c # cs) sub" by (auto simp: startsWith_iff)
      then show ?thesis by simp
    next
      case (Cons a p')
      with pq have "cs = p' @ sub @ q" by simp
      with Cons.IH have "includes_str cs sub" by blast
      then show ?thesis by simp
    qed
  qed
qed

lemma isEnergyNutrient_iff:
  "isEnergyNutrient n \<longleftrightarrow>
     (nutrientId n = Some 208 \<or>
      (\<exists>r. nutrient_ref n = Some r \<and>
           (ref_id r = Some 208 \<or>
            (\<exists>nm. ref_name r = Some nm \<and> includes_str (toLowerCase nm) ''energy''))))"
  by (auto simp: isEnergyNutrient_def toLowerCase_def split: option.splits)

lemma isEnergyNutrient_spec: "isEnergyNutrient n \<Longrightarrow> specIsEnergy n"
  by (auto simp: isEnergyNutrient_def specIsEnergy_def containsEnergy_def split: option.splits)

lemma extractCalories_None:
  assumes "\<forall>n\<in>set ns. \<not> isEnergyNutrient n"
  shows "extractCalories (NutrientArray ns) = None"
proof -
  have "find isEnergyNutrient ns = None"
    using assms by (auto simp: find_None_iff)
  then show ?thesis by (simp add: extractCalories_def)
qed

lemma extractCalories_first:
  assumes "firstWith isEnergyNutrient ns e"
  shows "extractCalories (NutrientArray ns) =
           Some (Math_round (orElse0 (api_value e) (api_amount e)))"
proof -
  have "find isEnergyNutrient ns = Some e"
    using assms by (simp add: find_firstWith)
  then show ?thesis by (simp add: extractCalories_def)
qed

lemma firstWith_weaken:
  assumes "firstWith Q xs e" and "P e" and "\<And>x. P x \<Longrightarrow> Q x"
  shows "firstWith P xs e"
  using assms unfolding firstWith_def by blast

lemma lower_nutrients:
  "toLowerCase ''Energy'' = ''energy''" "toLowerCase ''Protein'' = ''protein''"
  by code_simp+

lemma protein_not_energy:
  "\<not> specIsEnergy (flatNutrient 203 ''Protein'' 25)"
  "\<not> isEnergyNutrient (flatNutrient 203 ''Protein'' 25)"
  by (simp_all add: specIsEnergy_def isEnergyNutrient_def containsEnergy_def flatNutrient_def
      lower_nutrients)

lemma flat_energy:
  "specIsEnergy (flatNutrient 208 ''Energy'' v)" "isEnergyNutrient (flatNutrient 208 ''Energy'' v)"
  by (simp_all add: specIsEnergy_def isEnergyNutrient_def flatNutrient_def)

lemma nested_energy:
  "specIsEnergy (nestedNutrient 1008 ''Energy'' a)"
  "isEnergyNutrient (nestedNutrient 1008 ''Energy'' a)"
  by (simp_all add: specIsEnergy_def isEnergyNutrient_def containsEnergy_def nestedNutrient_def
      lower_nutrients)

lemma round_samples:
  "Math_round (598 / 5) = 120" "Math_round (1252 / 5) = 250"
  by (simp_all add: Math_round_def floor_eq_iff)

text \<open>
  Claim C7, as the code has it. The provider never reads an explicit \<open>calories\<close> field: a
  food record with \<open>calories\<close> 500 and an energy entry of 119.6 becomes a candidate with
  the calorie value 120, where the policy as the claim words it gives 500.
\<close>

theorem explicit_calories_ignored:
  "food_calories (foodOf (Some 500) (NutrientArray [flatNutrient 208 ''Energy'' (598 / 5)])) =
     Some 500 \<and>
   calories (transformFood
     (foodOf (Some 500) (NutrientArray [flatNutrient 208 ''Energy'' (598 / 5)]))) = Some 120 \<and>
   specExtractCalories
     (foodOf (Some 500) (NutrientArray [flatNutrient 208 ''Energy'' (598 / 5)])) = Some 500"
proof -
  have "find isEnergyNutrient [flatNutrient 208 ''Energy'' (598 / 5)] =
      Some (flatNutrient 208 ''Energy'' (598 / 5))"
    by (simp add: flat_energy)
  then have "extractCalories (NutrientArray [flatNutrient 208 ''Energy'' (598 / 5)]) = Some 120"
    by (simp add: extractCalories_def) (simp add: flatNutrient_def orElse0_def round_samples)
  then show ?thesis
    by (simp add: foodOf_def transformFood_def specExtractCalories_def)
qed

text \<open>
  Claim C7, amended: for every provider food record whose nutrients are absent or a list,
  the calorie value of the candidate is what \<open>_extractCalories\<close> computes from the
  nutrients, whatever explicit \<open>calories\<close> field the record has. Without nutrients, or
  with a list that has no energy entry, the candidate carries no calorie value. When the
  first energy entry of the list is matched through \<open>nutrientId\<close> 208, \<open>nutrient.id\<close> 208
  or a \<open>nutrient.name\<close> containing \<open>energy\<close> case-insensitively, the calorie value is
  that entry's \<open>value\<close> rounded to the nearest integer, or, when the value is missing or
  \<open>0\<close>, its \<open>amount\<close> rounded, or \<open>0\<close> when that is missing too.
\<close>

theorem extractCalories_policy:
  "calories (transformFood food) = extractCalories (foodNutrients food) \<and>
   calories (transformFood (food\<lparr>food_calories := c\<rparr>)) = calories (transformFood food) \<and>
   (foodNutrients food = NoNutrients \<longrightarrow> calories (transformFood food) = None) \<and>
   (\<forall>ns. foodNutrients food = NutrientArray ns \<and> (\<forall>n\<in>set ns. \<not> specIsEnergy n)
      \<longrightarrow> calories (transformFood food) = None) \<and>
   (\<forall>ns e v. foodNutrients food = NutrientArray ns \<and> firstWith specIsEnergy ns e \<and>
      isEnergyNutrient e \<and> api_value e = Some v \<and> v \<noteq> 0
      \<longrightarrow> calories (transformFood food) = Some (Math_round v)) \<and>
   (\<forall>ns e. foodNutrients food = NutrientArray ns \<and> firstWith specIsEnergy ns e \<and>
      isEnergyNutrient e \<and> (api_value e = None \<or> api_value e = Some 0)
      \<longrightarrow> calories (transformFood food) =
            Some (Math_round (case api_amount e of Some a \<Rightarrow> a | None \<Rightarrow> 0))) \<and>
   (\<forall>n. isEnergyNutrient n \<longleftrightarrow>
      (nutrientId n = Some 208 \<or>
       (\<exists>r. nutrient_ref n = Some r \<and>
            (ref_id r = Some 208 \<or>
             (\<exists>nm p q. ref_name r = Some nm \<and> toLowerCase nm = p @ ''energy'' @ q)))))"
proof (intro conjI allI impI)
  show "calories (transformFood food) = extractCalories (foodNutrients food)"
    by (simp add: transformFood_def)
  show "calories (transformFood (food\<lparr>food_calories := c\<rparr>)) = calories (transformFood food)"
    by (simp add: transformFood_def)
next
  assume "foodNutrients food = NoNutrients"
  then show "calories (transformFood food) = None"
    by (simp add: transformFood_def extractCalories_def)
next
  fix ns
  assume h: "foodNutrients food = NutrientArray ns \<and> (\<forall>n\<in>set ns. \<not> specIsEnergy n)"
  then have "\<forall>n\<in>set ns. \<not> isEnergyNutrient n"
    using isEnergyNutrient_spec by blast
  then show "calories (transformFood food) = None"
    using h by (simp add: transformFood_def extractCalories_None)
next
  fix ns e v
  assume h: "foodNutrients food = NutrientArray ns \<and> firstWith specIsEnergy ns e \<and>
      isEnergyNutrient e \<and> api_value e = Some v \<and> v \<noteq> 0"
  then have "firstWith isEnergyNutrient ns e"
    using firstWith_weaken[of specIsEnergy ns e isEnergyNutrient] isEnergyNutrient_spec by blast
  then show "calories (transformFood food) = Some (Math_round v)"
    using h by (simp add: transformFood_def extractCalories_first orElse0_def)
next
  fix ns e
  assume h: "foodNutrients food = NutrientArray ns \<and> firstWith specIsEnergy ns e \<and>
      isEnergyNutrient e \<and> (api_value e = None \<or> api_value e = Some 0)"
  then have f: "firstWith isEnergyNutrient ns e"
    using firstWith_weaken[of specIsEnergy ns e isEnergyNutrient] isEnergyNutrient_spec by blast
  have "orElse0 (api_value e) (api_amount e) = (case api_amount e of Some a \<Rightarrow> a | None \<Rightarrow> 0)"
    using h by (auto simp: orElse0_def split: option.splits)
  then show "calories (transformFood food) =
            Some (Math_round (case api_amount e of Some a \<Rightarrow> a | None \<Rightarrow> 0))"
    using h f by (simp add: transformFood_def extractCalories_first)
next
  fix n
  show "isEnergyNutrient n \<longleftrightarrow>
      (nutrientId n = Some 208 \<or>
       (\<exists>r. nutrient_ref n = Some r \<and>
            (ref_id r = Some 208 \<or>
             (\<exists>nm p q. ref_name r = Some nm \<and> toLowerCase nm = p @ ''energy'' @ q))))"
    unfolding isEnergyNutrient_iff includes_str_iff by blast
qed

text \<open>
  The parts of C7 at concrete food records: no nutrients, an explicit \<open>calories\<close> field
  that changes nothing, a list without an energy entry, an energy entry with a flat
  \<open>nutrientId\<close> of 208, and an energy entry named under \<open>nutrient\<close> with an amount.
\<close>

theorem extractCalories_policy_witness:
  "calories (transformFood (foodOf None NoNutrients)) = None \<and>
   calories (transformFood
     ((foodOf None (NutrientArray [flatNutrient 208 ''Energy'' (598 / 5)]))
        \<lparr>food_calories := Some 500\<rparr>)) =
   calories (transformFood (foodOf None (NutrientArray [flatNutrient 208 ''Energy'' (598 / 5)]))) \<and>
   \<not> specIsEnergy (flatNutrient 203 ''Protein'' 25) \<and>
   calories (transformFood (foodOf None (NutrientArray [flatNutrient 203 ''Protein'' 25]))) =
     None \<and>
   firstWith specIsEnergy [flatNutrient 208 ''Energy'' (598 / 5)]
     (flatNutrient 208 ''Energy'' (598 / 5)) \<and>
   isEnergyNutrient (flatNutrient 208 ''Energy'' (598 / 5)) \<and>
   api_value (flatNutrient 208 ''Energy'' (598 / 5)) = Some (598 / 5) \<and>
   calories (transformFood (foodOf None (NutrientArray [flatNutrient 208 ''Energy'' (598 / 5)]))) =
     Some 120 \<and>
   firstWith specIsEnergy
     [flatNutrient 203 ''Protein'' 25, nestedNutrient 1008 ''Energy'' (1252 / 5)]
     (nestedNutrient 1008 ''Energy'' (1252 / 5)) \<and>
   isEnergyNutrient (nestedNutrient 1008 ''Energy'' (1252 / 5)) \<and>
   api_value (nestedNutrient 1008 ''Energy'' (1252 / 5)) = None \<and>
   calories (transformFood (foodOf None (NutrientArray
     [flatNutrient 203 ''Protein'' 25, nestedNutrient 1008 ''Energy'' (1252 / 5)]))) = Some 250"
proof -
  let ?e = "flatNutrient 208 ''Energy'' (598 / 5)"
  let ?p = "flatNutrient 203 ''Protein'' 25"
  let ?n = "nestedNutrient 1008 ''Energy'' (1252 / 5)"
  note t = extractCalories_policy
  have fn: "foodNutrients (foodOf c ns) = ns" for c ns
    by (simp add: foodOf_def)
  have 1: "calories (transformFood (foodOf None NoNutrients)) = None"
    using t[of "foodOf None NoNutrients", THEN conjunct2, THEN conjunct2, THEN conjunct1] fn
    by (elim impE) simp_all
  have 2: "calories (transformFood ((foodOf None (NutrientArray [?e]))\<lparr>food_calories := Some 500\<rparr>)) =
      calories (transformFood (foodOf None (NutrientArray [?e])))"
    using t[of "foodOf None (NutrientArray [?e])" "Some 500", THEN conjunct2, THEN conjunct1] .
  have p: "\<not> specIsEnergy ?p"
    by (rule protein_not_energy)
  have 3: "calories (transformFood (foodOf None (NutrientArray [?p]))) = None"
    using t[of "foodOf None (NutrientArray [?p])", THEN conjunct2, THEN conjunct2,
        THEN conjunct2, THEN conjunct1, THEN spec, of "[?p]"] fn p
    by (elim impE) simp_all
  have f1: "firstWith specIsEnergy [?e] ?e"
    unfolding find_firstWith[symmetric] by (simp add: flat_energy)
  have e1: "isEnergyNutrient ?e"
    by (rule flat_energy)
  have v1: "api_value ?e = Some (598 / 5)"
    by (simp add: flatNutrient_def)
  have "calories (transformFood (foodOf None (NutrientArray [?e]))) = Some (Math_round (598 / 5))"
    using t[of "foodOf None (NutrientArray [?e])", THEN conjunct2, THEN conjunct2,
        THEN conjunct2, THEN conjunct2, THEN conjunct1, THEN spec, THEN spec, THEN spec,
        of "[?e]" ?e "598 / 5"] fn f1 e1 v1
    by (elim impE) simp_all
  then have 4: "calories (transformFood (foodOf None (NutrientArray [?e]))) = Some 120"
    by (simp add: round_samples)
  have f2: "firstWith specIsEnergy [?p, ?n] ?n"
    unfolding find_firstWith[symmetric] by (simp add: protein_not_energy nested_energy)
  have e2: "isEnergyNutrient ?n"
    by (rule nested_energy)
  have v2: "api_value ?n = None" and a2: "api_amount ?n = Some (1252 / 5)"
    by (simp_all add: nestedNutrient_def)
  have "calories (transformFood (foodOf None (NutrientArray [?p, ?n]))) =
      Some (Math_round (case api_amount ?n of Some a \<Rightarrow> a | None \<Rightarrow> 0))"
    using t[of "foodOf None (NutrientArray [?p, ?n])", THEN conjunct2, THEN conjunct2,
        THEN conjunct2, THEN conjunct2, THEN conjunct2, THEN conjunct1, THEN spec, THEN spec,
        of "[?p, ?n]" ?n] fn f2 e2 v2
    by (elim impE) simp_all
  then have 5: "calories (transformFood (foodOf None (NutrientArray [?p, ?n]))) = Some 250"
    by (simp add: a2 round_samples)
  show ?thesis
    by (intro conjI) (rule 1 2 p 3 f1 e1 v1 4 f2 e2 v2 5)+
qed

end
